theory Spec2Isabelle
  imports Complex_Main
begin

section \<open>Data model\<close>

text \<open>
  A shallow embedding of \<^verbatim>\<open>privacy_validator/anonymisation_validator.py\<close> and of the
  validation step of \<^verbatim>\<open>privacy_validator/anonymisation_validator_cli.py\<close>.

  A pandas cell is a number, a text value or the missing marker. Numbers are real numbers:
  the arithmetic of the metrics is exact here, where the source computes in binary
  floating point. A data frame has its column names, the dtype of every column and its
  rows; it carries the default \<^verbatim>\<open>RangeIndex\<close> (the frames of the command line and of
  the tests are built by \<^verbatim>\<open>read_csv\<close> and by the \<^verbatim>\<open>DataFrame\<close> constructor).
  Boolean and non-finite cells are not part of the model.
\<close>

datatype cell = Num real | Str string | NaN

datatype dtype = IntD | FloatD | ObjectD

type_synonym row = "string \<Rightarrow> cell"

record dataframe =
  columns :: "string list"
  dtypes :: "string \<Rightarrow> dtype"
  rows :: "row list"

text \<open>The exceptions of the source, each with the name or message it carries.\<close>

datatype error =
    KeyError string
  | ValueError string
  | UnboundLocalError string
  | TypeError string
  | IndexError string
  | AttributeError string
  | SystemExit string

definition is_numeric_dtype :: "dtype \<Rightarrow> bool" where
  "is_numeric_dtype d = (d \<noteq> ObjectD)"

definition isna :: "cell \<Rightarrow> bool" where
  "isna c = (c = NaN)"

definition dropna :: "cell list \<Rightarrow> cell list" where
  "dropna cs = filter (\<lambda>c. \<not> isna c) cs"

text \<open>\<^verbatim>\<open>df[col]\<close>: the cells of a column, or \<^verbatim>\<open>KeyError\<close>.\<close>

definition get_column :: "dataframe \<Rightarrow> string \<Rightarrow> error + cell list" where
  "get_column df c =
     (if c \<in> set (columns df) then Inr (map (\<lambda>r. r c) (rows df)) else Inl (KeyError c))"

section \<open>Grouping engine\<close>

text \<open>
  \<^verbatim>\<open>groupby(keys, dropna=False)\<close>: the rows that share a key form one class, and a missing
  value is a key component like any other. Classes are listed in order of first
  appearance; pandas lists them by sorted key, which no metric below depends on
  (minimum, maximum, mean and a histogram re-sorted by size). The lists of the report that
  follow the classes (flagged records, rare combinations, skewed classes) have the same
  entries in the order of the model.
\<close>

fun group_by :: "('a \<Rightarrow> 'k) \<Rightarrow> 'a list \<Rightarrow> ('k \<times> 'a list) list" where
  "group_by f [] = []"
| "group_by f (x # xs) =
     (f x, x # filter (\<lambda>y. f y = f x) xs) # group_by f (filter (\<lambda>y. f y \<noteq> f x) xs)"

definition first_missing :: "dataframe \<Rightarrow> string list \<Rightarrow> string option" where
  "first_missing df cs = find (\<lambda>c. c \<notin> set (columns df)) cs"

definition groupby :: "dataframe \<Rightarrow> string list \<Rightarrow> error + (cell list \<times> row list) list" where
  "groupby df qi_cols =
     (if qi_cols = [] then Inl (ValueError ''No group keys passed!'')
      else case first_missing df qi_cols of
             Some c \<Rightarrow> Inl (KeyError c)
           | None \<Rightarrow> Inr (group_by (\<lambda>r. map r qi_cols) (rows df)))"

text \<open>\<^verbatim>\<open>df.groupby(qi_cols, dropna=False)[sensitive_col]\<close>: the sensitive cells of each class.\<close>

definition groupby_col ::
  "dataframe \<Rightarrow> string list \<Rightarrow> string \<Rightarrow> error + (cell list \<times> cell list) list" where
  "groupby_col df qi_cols sensitive_col =
     (case groupby df qi_cols of
        Inl e \<Rightarrow> Inl e
      | Inr gs \<Rightarrow>
          if sensitive_col \<in> set (columns df)
          then Inr (map (\<lambda>(k, rs). (k, map (\<lambda>r. r sensitive_col) rs)) gs)
          else Inl (KeyError sensitive_col))"

definition mean :: "real list \<Rightarrow> real" where
  "mean xs = sum_list xs / real (length xs)"

text \<open>\<^verbatim>\<open>Series.value_counts().sort_index().to_dict()\<close> on a series of class sizes.\<close>

definition value_counts_sorted :: "nat list \<Rightarrow> (nat \<times> nat) list" where
  "value_counts_sorted xs = map (\<lambda>k. (k, count_list xs k)) (sort (remdups xs))"

section \<open>k-anonymity\<close>

record KAnonymityReport =
  k_min :: nat
  k_avg :: real
  eq_class_size_hist :: "(nat \<times> nat) list"

definition k_anonymity :: "dataframe \<Rightarrow> string list \<Rightarrow> error + KAnonymityReport" where
  "k_anonymity df qi_cols =
     (case groupby df qi_cols of
        Inl e \<Rightarrow> Inl e
      | Inr grouped \<Rightarrow>
          let eq_class_sizes = map (\<lambda>(k, rs). length rs) grouped
          in Inr \<lparr> k_min = (if eq_class_sizes \<noteq> [] then Min (set eq_class_sizes) else 0),
                   k_avg = (if eq_class_sizes \<noteq> [] then mean (map real eq_class_sizes) else 0),
                   eq_class_size_hist = value_counts_sorted eq_class_sizes \<rparr>)"


section \<open>l-diversity\<close>

record LDiversityReport =
  l_rep_method :: string
  l_min :: real
  l_avg :: real
  entropy_min :: "real option"
  entropy_avg :: "real option"
  entropy_effective_min :: "real option"
  entropy_effective_avg :: "real option"

text \<open>Shannon entropy in bits of the positive entries of \<open>p\<close>.\<close>

definition safe_entropy :: "real list \<Rightarrow> real" where
  "safe_entropy p =
     (let p' = filter (\<lambda>x. x > 0) p
      in if p' = [] then 0 else - sum_list (map (\<lambda>x. x * log 2 x) p'))"

text \<open>\<^verbatim>\<open>nunique(dropna=False)\<close>: the missing marker counts as one value.\<close>

definition nunique_keepna :: "cell list \<Rightarrow> nat" where
  "nunique_keepna cs = length (remdups cs)"

text \<open>\<^verbatim>\<open>value_counts(normalize=True, dropna=False)\<close> of one class: the share of every value.\<close>

definition value_shares_keepna :: "cell list \<Rightarrow> real list" where
  "value_shares_keepna cs =
     map (\<lambda>v. real (count_list cs v) / real (length cs)) (remdups cs)"

text \<open>
  \<^verbatim>\<open>probs.groupby(level=list(range(len(qi_cols))))\<close> regroups the shares by QI key with the
  default \<^verbatim>\<open>dropna=True\<close>: a class whose key has a missing component is left out.
\<close>

definition regroup_by_level :: "(cell list \<times> 'a) list \<Rightarrow> (cell list \<times> 'a) list" where
  "regroup_by_level gs = filter (\<lambda>(k, v). NaN \<notin> set k) gs"

definition l_diversity ::
  "dataframe \<Rightarrow> string list \<Rightarrow> string \<Rightarrow> string \<Rightarrow> error + LDiversityReport" where
  "l_diversity df qi_cols sensitive_col method =
     (case groupby_col df qi_cols sensitive_col of
        Inl e \<Rightarrow> Inl e
      | Inr grp \<Rightarrow>
          if method = ''distinct'' then
            let l_values = map (\<lambda>(k, cs). real (nunique_keepna cs)) grp
            in Inr \<lparr> l_rep_method = method,
                     l_min = (if l_values \<noteq> [] then Min (set l_values) else 0),
                     l_avg = (if l_values \<noteq> [] then mean l_values else 0),
                     entropy_min = None, entropy_avg = None,
                     entropy_effective_min = None, entropy_effective_avg = None \<rparr>
          else if method = ''entropy'' then
            let probs = map (\<lambda>(k, cs). (k, value_shares_keepna cs)) grp;
                entropies = map (\<lambda>(k, p). safe_entropy p) (regroup_by_level probs);
                entropy_min' = (if entropies \<noteq> [] then Min (set entropies) else 0);
                entropy_avg' = (if entropies \<noteq> [] then mean entropies else 0);
                distinct_l = map (\<lambda>(k, cs). real (nunique_keepna cs)) grp
            in Inr \<lparr> l_rep_method = method,
                     l_min = (if distinct_l \<noteq> [] then Min (set distinct_l) else 0),
                     l_avg = (if distinct_l \<noteq> [] then mean distinct_l else 0),
                     entropy_min = Some entropy_min',
                     entropy_avg = Some entropy_avg',
                     entropy_effective_min = Some (2 powr entropy_min'),
                     entropy_effective_avg = Some (2 powr entropy_avg') \<rparr>
          else Inl (ValueError ''method must be distinct or entropy''))"


section \<open>t-closeness\<close>

record TClosenessReport =
  t_max :: real
  t_avg :: real
  bins :: "real list option"
  t_rep_method :: string

subsection \<open>Library functions of numpy and scipy, over exact reals\<close>

text \<open>\<^verbatim>\<open>np.linspace(a, b, num)\<close>; a negative \<^verbatim>\<open>num\<close> raises.\<close>

definition linspace :: "real \<Rightarrow> real \<Rightarrow> int \<Rightarrow> error + real list" where
  "linspace a b num =
     (if num < 0 then Inl (ValueError ''Number of samples must be non-negative'')
      else if num = 1 then Inr [a]
      else Inr (map (\<lambda>i. a + real i * ((b - a) / real (nat num - 1))) [0..<nat num]))"

text \<open>\<^verbatim>\<open>np.quantile(x, q)\<close> with the default linear interpolation, for a non-empty \<open>x\<close>.\<close>

definition np_quantile :: "real list \<Rightarrow> real \<Rightarrow> real" where
  "np_quantile x q =
     (let xs = sort x;
          pos = q * real (length xs - 1);
          lo = nat \<lfloor>pos\<rfloor>;
          hi = min (lo + 1) (length xs - 1)
      in xs ! lo + (pos - real lo) * (xs ! hi - xs ! lo))"

definition np_percentile :: "real list \<Rightarrow> real \<Rightarrow> real" where
  "np_percentile x p = np_quantile x (p / 100)"

definition np_unique :: "real list \<Rightarrow> real list" where
  "np_unique xs = sort (remdups xs)"

text \<open>
  \<^verbatim>\<open>np.histogram_bin_edges(x, bins=n)\<close> for a non-empty \<open>x\<close> and \<open>n \<ge> 1\<close>: \<open>n + 1\<close> equally
  spaced edges from the minimum to the maximum, the range widened by one half on each
  side when it is a single point.
\<close>

definition histogram_bin_edges :: "real list \<Rightarrow> nat \<Rightarrow> real list" where
  "histogram_bin_edges x n =
     (let first_edge = Min (set x); last_edge = Max (set x);
          lo = (if first_edge = last_edge then first_edge - 1 / 2 else first_edge);
          hi = (if first_edge = last_edge then last_edge + 1 / 2 else last_edge)
      in map (\<lambda>i. lo + real i * ((hi - lo) / real n)) [0..<Suc n])"

text \<open>
  \<^verbatim>\<open>np.histogram(a, bins=edges)[0]\<close>: bin \<open>i\<close> is half-open, the last bin is closed; values
  outside the edges are not counted.
\<close>

definition np_histogram :: "real list \<Rightarrow> real list \<Rightarrow> nat list" where
  "np_histogram a edges =
     map (\<lambda>i. length (filter (\<lambda>v. edges ! i \<le> v \<and>
                                   (if Suc (Suc i) = length edges then v \<le> edges ! Suc i
                                    else v < edges ! Suc i)) a))
         [0..<length edges - 1]"

text \<open>
  \<^verbatim>\<open>scipy.stats.wasserstein_distance(u, v)\<close> of two samples: the integral of the absolute
  difference of their empirical distribution functions; an empty sample raises.
\<close>

definition ecdf :: "real list \<Rightarrow> real \<Rightarrow> real" where
  "ecdf u t = real (length (filter (\<lambda>a. a \<le> t) u)) / real (length u)"

definition wasserstein_distance :: "real list \<Rightarrow> real list \<Rightarrow> error + real" where
  "wasserstein_distance u v =
     (if u = [] \<or> v = [] then Inl (ValueError ''Distribution cannot be empty.'')
      else let all_values = sort (u @ v)
           in Inr (\<Sum>i \<leftarrow> [0..<length all_values - 1].
                     \<bar>ecdf u (all_values ! i) - ecdf v (all_values ! i)\<bar>
                       * (all_values ! Suc i - all_values ! i)))"

subsection \<open>Distances\<close>

text \<open>\<^verbatim>\<open>p / p.sum() if p.sum() > 0 else p\<close>.\<close>

definition normalise :: "real list \<Rightarrow> real list" where
  "normalise p = (if sum_list p > 0 then map (\<lambda>v. v / sum_list p) p else p)"

text \<open>Half the sum of the absolute differences of two vectors of the same length.\<close>

definition total_variation_distance :: "real list \<Rightarrow> real list \<Rightarrow> real" where
  "total_variation_distance p q =
     1 / 2 * sum_list (map (\<lambda>(a, b). \<bar>a - b\<bar>) (zip (normalise p) (normalise q)))"

definition emd_distance :: "real list \<Rightarrow> real list \<Rightarrow> error + real" where
  "emd_distance p_values q_values = wasserstein_distance p_values q_values"

text \<open>The numbers of a series, the missing marker dropped.\<close>

fun num_values :: "cell list \<Rightarrow> real list" where
  "num_values [] = []"
| "num_values (Num v # cs) = v # num_values cs"
| "num_values (c # cs) = num_values cs"

text \<open>
  \<^verbatim>\<open>subs.value_counts(normalize=True).reindex(cats, fill_value=0).values\<close>: the share of each
  category among the non-missing cells of \<open>subs\<close>, zero for a category that does not occur.
\<close>

definition value_counts_reindex :: "cell list \<Rightarrow> cell list \<Rightarrow> real list" where
  "value_counts_reindex subs cats =
     map (\<lambda>c. if c \<in> set (dropna subs)
               then real (count_list subs c) / real (length (dropna subs)) else 0) cats"

text \<open>Applying the per-class function to every class; the first exception ends the loop.\<close>

fun apply_each :: "('a \<Rightarrow> error + 'b) \<Rightarrow> 'a list \<Rightarrow> error + 'b list" where
  "apply_each f [] = Inr []"
| "apply_each f (x # xs) =
     (case f x of
        Inl e \<Rightarrow> Inl e
      | Inr y \<Rightarrow> (case apply_each f xs of Inl e \<Rightarrow> Inl e | Inr ys \<Rightarrow> Inr (y # ys)))"

subsection \<open>The analyzer\<close>

text \<open>
  Lines 207 to 251 of the source: the bin edges and the local function \<^verbatim>\<open>dist_func\<close>.
  The function is \<open>None\<close> on the path that never binds it (the \<^verbatim>\<open>quantile\<close> branch sets
  \<^verbatim>\<open>bins\<close> only). The branch for a not-a-number minimum or maximum cannot be taken after
  \<^verbatim>\<open>dropna\<close> and is left out. The range \<^verbatim>\<open>x_max - x_min\<close> is exact here; numpy takes it in
  the dtype of the column, so that on an \<^verbatim>\<open>int64\<close> column whose range exceeds the type it
  wraps around.
\<close>

definition fd_bins :: "real list \<Rightarrow> int \<Rightarrow> real list" where
  "fd_bins x numeric_bins =
     (let x_max = Max (set x); x_min = Min (set x);
          iqr = np_percentile x 75 - np_percentile x 25;
          h0 = (if iqr > 0 then 2 * iqr * (real (length x) powr (- 1 / 3))
                else (x_max - x_min) / real_of_int (max 1 numeric_bins));
          h = (if h0 = 0 then 1 else h0);
          bin_count = nat (max 1 \<lceil>(x_max - x_min) / h\<rceil>)
      in histogram_bin_edges x bin_count)"

definition numeric_dist_func :: "string \<Rightarrow> real list \<Rightarrow> real list \<Rightarrow> cell list \<Rightarrow> error + real" where
  "numeric_dist_func t_method x edges subs =
     (if t_method = ''emd'' then emd_distance (num_values subs) x
      else let global_counts = map real (np_histogram x edges);
               global_probs = normalise global_counts;
               counts = map real (np_histogram (num_values subs) edges);
               p = normalise counts
           in Inr (total_variation_distance p global_probs))"

definition categorical_dist_func :: "cell list \<Rightarrow> cell list \<Rightarrow> error + real" where
  "categorical_dist_func s subs =
     (let cats = remdups (dropna s);
          global_probs = value_counts_reindex s cats;
          p = value_counts_reindex subs cats
      in Inr (total_variation_distance p global_probs))"

definition prepare_dist ::
  "dtype \<Rightarrow> cell list \<Rightarrow> int \<Rightarrow> string \<Rightarrow> string \<Rightarrow>
   error + (real list option \<times> (cell list \<Rightarrow> error + real) option)" where
  "prepare_dist d s numeric_bins binning_method t_method =
     (if is_numeric_dtype d then
        let x = num_values s in
        if x = [] then Inr (None, Some (\<lambda>subs. Inr 0))
        else if binning_method = ''quantile'' then
          (case linspace 0 1 (numeric_bins + 1) of
             Inl e \<Rightarrow> Inl e
           | Inr quantiles \<Rightarrow> Inr (Some (np_unique (map (np_quantile x) quantiles)), None))
        else
          let edges = fd_bins x numeric_bins
          in Inr (Some edges, Some (numeric_dist_func t_method x edges))
      else Inr (None, Some (categorical_dist_func s)))"

definition t_closeness ::
  "dataframe \<Rightarrow> string list \<Rightarrow> string \<Rightarrow> int \<Rightarrow> string \<Rightarrow> string \<Rightarrow> error + TClosenessReport" where
  "t_closeness df qi_cols sensitive_col numeric_bins binning_method t_method =
     (case get_column df sensitive_col of
        Inl e \<Rightarrow> Inl e
      | Inr s \<Rightarrow>
     (case prepare_dist (dtypes df sensitive_col) s numeric_bins binning_method t_method of
        Inl e \<Rightarrow> Inl e
      | Inr (bins', dist_func) \<Rightarrow>
     (case groupby_col df qi_cols sensitive_col of
        Inl e \<Rightarrow> Inl e
      | Inr grp \<Rightarrow>
     (case dist_func of
        None \<Rightarrow> Inl (UnboundLocalError ''dist_func'')
      | Some f \<Rightarrow>
     (case apply_each f (map snd grp) of
        Inl e \<Rightarrow> Inl e
      | Inr t_values \<Rightarrow>
          Inr \<lparr> t_max = (if t_values \<noteq> [] then Max (set t_values) else 0),
                t_avg = (if t_values \<noteq> [] then mean t_values else 0),
                bins = bins',
                t_rep_method = t_method \<rparr>)))))"

section \<open>Linkage attack\<close>

record LinkageAttackResult =
  unique :: nat
  multiple :: nat
  none :: nat
  flagged :: "(string \<times> cell) list list"
  records_tested :: nat
  reid_probability :: real

text \<open>
  \<^verbatim>\<open>reset_index(drop=False)\<close> inserts the old index, here the row position, as the first
  column. The column is named \<^verbatim>\<open>index\<close>, or \<^verbatim>\<open>level_0\<close> when the frame already has a column
  \<^verbatim>\<open>index\<close>; an existing column of the chosen name is refused.
\<close>

definition reset_index :: "dataframe \<Rightarrow> error + dataframe" where
  "reset_index df =
     (let new = (if ''index'' \<in> set (columns df) then ''level_0'' else ''index'')
      in if new \<in> set (columns df)
         then Inl (ValueError ''cannot insert level_0, already exists'')
         else Inr \<lparr> columns = new # columns df,
                    dtypes = (dtypes df)(new := IntD),
                    rows = map (\<lambda>(i, r). r(new := Num (real i))) (enumerate 0 (rows df)) \<rparr>)"

text \<open>\<^verbatim>\<open>rename(columns={old: new})\<close>: the column \<open>old\<close>, if there is one, is called \<open>new\<close>.\<close>

definition rename_column :: "string \<Rightarrow> string \<Rightarrow> dataframe \<Rightarrow> dataframe" where
  "rename_column old new df =
     (if old \<in> set (columns df)
      then \<lparr> columns = map (\<lambda>c. if c = old then new else c) (columns df),
             dtypes = (dtypes df)(new := dtypes df old),
             rows = map (\<lambda>r. r(old := NaN, new := r old)) (rows df) \<rparr>
      else df)"

text \<open>
  \<^verbatim>\<open>left.merge(right, on=keys, how="left", indicator=True)\<close>. Every row of \<open>left\<close> is kept, in
  order; it appears once per row of \<open>right\<close> with the same key, marked \<^verbatim>\<open>both\<close> (\<open>True\<close>), or
  once, marked \<^verbatim>\<open>left_only\<close> (\<open>False\<close>), when no row of \<open>right\<close> has its key. Missing key
  components match each other. Only the columns of \<open>left\<close> and the mark are kept in the model.
  A key that one of the frames lacks, a text key column against a numeric one and a column
  with the name of the indicator are refused; with an empty key list pandas fails on an
  index out of range.
\<close>

definition merge_left_indicator ::
  "dataframe \<Rightarrow> dataframe \<Rightarrow> string list \<Rightarrow> error + (row \<times> bool) list" where
  "merge_left_indicator left right keys =
     (if keys = [] then Inl (IndexError ''list index out of range'')
      else case find (\<lambda>c. c \<notin> set (columns right) \<or> c \<notin> set (columns left)) keys of
             Some c \<Rightarrow> Inl (KeyError c)
           | None \<Rightarrow>
               if \<exists>c \<in> set keys. is_numeric_dtype (dtypes left c) \<noteq> is_numeric_dtype (dtypes right c)
               then Inl (ValueError ''You are trying to merge on object and numeric columns'')
               else if ''_merge'' \<in> set (columns left) \<union> set (columns right)
               then Inl (ValueError ''Cannot use name of an existing column for indicator column'')
               else Inr (concat (map (\<lambda>a.
                      let matches = filter (\<lambda>r. map r keys = map a keys) (rows right)
                      in if matches = [] then [(a, False)] else map (\<lambda>r. (a, True)) matches)
                    (rows left))))"

text \<open>\<^verbatim>\<open>aux.loc[labels]\<close> on the default index: a label is a row position of the frame.\<close>

fun loc_row :: "dataframe \<Rightarrow> cell \<Rightarrow> error + row" where
  "loc_row df (Num v) =
     (if 0 \<le> v \<and> v < real (length (rows df)) \<and> v = real_of_int \<lfloor>v\<rfloor>
      then Inr (rows df ! nat \<lfloor>v\<rfloor>) else Inl (KeyError ''not in index''))"
| "loc_row df c = Inl (KeyError ''not in index'')"

definition to_record :: "string list \<Rightarrow> row \<Rightarrow> (string \<times> cell) list" where
  "to_record cols r = map (\<lambda>c. (c, r c)) cols"

text \<open>
  Lines 46 to 71 of the source. The classes of \<^verbatim>\<open>merged.groupby("__aux_id__")\<close> are listed
  in order of first appearance (pandas: by sorted identifier), which the counts do not
  depend on, though the order of \<^verbatim>\<open>flagged\<close> does; this \<^verbatim>\<open>groupby\<close> leaves out a missing
  identifier. When there is no class at all, as for an auxiliary frame without rows, the
  series of counts is empty and keeps the categorical dtype of the indicator, and the
  comparison \<^verbatim>\<open>counts > 1\<close> of line 59 raises \<^verbatim>\<open>TypeError\<close>.
\<close>

definition simulate_linkage_attack ::
  "dataframe \<Rightarrow> dataframe \<Rightarrow> string list \<Rightarrow> error + LinkageAttackResult" where
  "simulate_linkage_attack anonymised_df aux_df qi_cols =
     (case reset_index aux_df of
        Inl e \<Rightarrow> Inl e
      | Inr indexed \<Rightarrow>
     (let aux = rename_column ''index'' ''__aux_id__'' indexed in
      case merge_left_indicator aux anonymised_df qi_cols of
        Inl e \<Rightarrow> Inl e
      | Inr merged \<Rightarrow>
          if ''__aux_id__'' \<in> set (columns anonymised_df) - set qi_cols
          then Inl (KeyError ''__aux_id__'')
          else if count_list (columns aux) ''__aux_id__'' \<noteq> 1
          then Inl (ValueError ''Grouper for __aux_id__ not 1-dimensional'')
          else
            let by_id = group_by (\<lambda>(a, both). a ''__aux_id__'')
                          (filter (\<lambda>(a, both). \<not> isna (a ''__aux_id__'')) merged);
                counts = map (\<lambda>(g, ms). (g, length (filter snd ms))) by_id;
                unique' = length (filter (\<lambda>(g, c). c = 1) counts);
                multiple' = length (filter (\<lambda>(g, c). c > 1) counts);
                none' = length (filter (\<lambda>(g, c). c = 0) counts)
            in if counts = []
               then Inl (TypeError ''Unordered Categoricals can only compare equality or not'')
               else
                 (case apply_each (loc_row aux) (map fst (filter (\<lambda>(g, c). c = 1) counts)) of
                    Inl e \<Rightarrow> Inl e
                  | Inr hit \<Rightarrow>
                      Inr \<lparr> unique = unique', multiple = multiple', none = none',
                            flagged = map (to_record (filter (\<lambda>c. c \<noteq> ''__aux_id__'')
                                                       (columns aux))) hit,
                            records_tested = length (rows aux),
                            reid_probability =
                              (if length (rows aux) \<noteq> 0
                               then real unique' / real (length (rows aux)) else 0) \<rparr>)))"

section \<open>Full report\<close>

record Thresholds =
  suggested_k :: nat
  suggested_l :: nat
  suggested_t :: real
  suggested_reid_probability :: real

text \<open>
  \<^verbatim>\<open>suggest_thresholds\<close>. \<^verbatim>\<open>s.nunique()\<close> leaves the missing marker out; the dtype kinds
  \<^verbatim>\<open>i\<close> and \<^verbatim>\<open>f\<close> are the numeric dtypes of the model.
\<close>

definition suggest_thresholds :: "dataframe \<Rightarrow> string list \<Rightarrow> string \<Rightarrow> error + Thresholds" where
  "suggest_thresholds df qi_cols sensitive_col =
     (let n_rows = length (rows df) in
      case get_column df sensitive_col of
        Inl e \<Rightarrow> Inl e
      | Inr s \<Rightarrow>
          Inr \<lparr> suggested_k = (if n_rows < 1000 then 5 else if n_rows < 10000 then 10 else 20),
                suggested_l = (if length (remdups (dropna s)) \<le> 10 then 2 else 3),
                suggested_t = (if is_numeric_dtype (dtypes df sensitive_col) then 2 / 10 else 3 / 10),
                suggested_reid_probability = (if n_rows > 1000 then 5 / 100 else 1 / 10) \<rparr>)"

text \<open>The keyword arguments of \<^verbatim>\<open>full_report\<close>, which the report repeats under \<^verbatim>\<open>params\<close>.\<close>

record Params =
  p_qi :: "string list"
  p_sensitive :: string
  p_k_required :: "int option"
  p_l_required :: "real option"
  p_l_method :: string
  p_t_required :: "real option"
  p_reid_required :: "real option"
  p_numeric_bins :: int
  p_dominance_threshold :: real
  p_rare_threshold :: int
  p_binning_method :: string
  p_t_method :: string

record DataSummary =
  n_rows :: nat
  n_cols :: nat
  missing_rates :: "(string \<times> real option) list"

text \<open>\<^verbatim>\<open>isna().mean()\<close>: the share of missing cells; not a number (\<open>None\<close>) for no cell.\<close>

definition missing_rate :: "cell list \<Rightarrow> real option" where
  "missing_rate cs =
     (if cs = [] then None else Some (real (length (filter isna cs)) / real (length cs)))"

definition data_summary :: "dataframe \<Rightarrow> DataSummary" where
  "data_summary df =
     \<lparr> n_rows = length (rows df),
       n_cols = length (columns df),
       missing_rates = map (\<lambda>c. (c, missing_rate (map (\<lambda>r. r c) (rows df)))) (columns df) \<rparr>"

text \<open>
  The lines of \<^verbatim>\<open>log.txt\<close>, without their time stamp: the two inputs, then for every
  analyzer its result or the exception it raised.
\<close>

datatype log_line =
    LogQI "string list"
  | LogSensitive string
  | LogK "error + KAnonymityReport"
  | LogL "error + LDiversityReport"
  | LogT "error + TClosenessReport"

text \<open>
  The state that the methods of a validator can reach: the data frame bound at
  construction, and the log file with whether it can be opened for appending. Here the
  frame is a value; the section on the object store has it as an object that calls could
  write.
\<close>

record world =
  self_df :: dataframe
  log_txt :: "log_line list"
  log_writable :: bool

text \<open>Lines 351 to 356: the lines are appended; a failure to write is swallowed.\<close>

definition write_log :: "log_line list \<Rightarrow> world \<Rightarrow> world" where
  "write_log debug_lines w =
     (if log_writable w then w\<lparr> log_txt := log_txt w @ debug_lines \<rparr> else w)"

text \<open>
  A local variable that is assigned inside a \<^verbatim>\<open>try\<close> block is bound after the block only
  if the analyzer returned: \<open>None\<close> stands for the unbound \<^verbatim>\<open>krep\<close>, \<^verbatim>\<open>lrep\<close> or \<^verbatim>\<open>trep\<close>,
  and in the report for the placeholder dictionary whose values are all \<^verbatim>\<open>None\<close>.
\<close>

definition bound :: "error + 'a \<Rightarrow> 'a option" where
  "bound res = (case res of Inl e \<Rightarrow> None | Inr v \<Rightarrow> Some v)"

datatype risk_flag =
    KBelow nat int
  | EntropyLBelow real real
  | DistinctLBelow real real
  | TAbove real real
  | ReidAbove real real

datatype repair =
    GeneraliseOrSuppressQIs "string list"
  | IncreaseEntropy
  | IncreaseDiversity
  | RebinSensitive
  | SuppressUniqueCombinations

text \<open>Lines 370 to 386: each threshold that is supplied reads the report of its analyzer.\<close>

definition k_flag ::
  "int option \<Rightarrow> KAnonymityReport option \<Rightarrow> string list \<Rightarrow> error + (risk_flag \<times> repair) list" where
  "k_flag k_required krep qi_cols =
     (case k_required of
        None \<Rightarrow> Inr []
      | Some k \<Rightarrow>
          (case krep of
             None \<Rightarrow> Inl (UnboundLocalError ''krep'')
           | Some kr \<Rightarrow>
               Inr (if int (k_min kr) < k
                    then [(KBelow (k_min kr) k, GeneraliseOrSuppressQIs qi_cols)] else [])))"

definition l_flag ::
  "real option \<Rightarrow> string \<Rightarrow> LDiversityReport option \<Rightarrow> error + (risk_flag \<times> repair) list" where
  "l_flag l_required l_method lrep =
     (case l_required of
        None \<Rightarrow> Inr []
      | Some l \<Rightarrow>
          (case lrep of
             None \<Rightarrow> Inl (UnboundLocalError ''lrep'')
           | Some lr \<Rightarrow>
               if l_method = ''entropy'' then
                 (case entropy_effective_min lr of
                    None \<Rightarrow> Inl (TypeError ''< not supported between NoneType and float'')
                  | Some eff \<Rightarrow>
                      Inr (if eff < l then [(EntropyLBelow eff l, IncreaseEntropy)] else []))
               else Inr (if l_min lr < l then [(DistinctLBelow (l_min lr) l, IncreaseDiversity)]
                         else [])))"

definition t_flag ::
  "real option \<Rightarrow> TClosenessReport option \<Rightarrow> error + (risk_flag \<times> repair) list" where
  "t_flag t_required trep =
     (case t_required of
        None \<Rightarrow> Inr []
      | Some t \<Rightarrow>
          (case trep of
             None \<Rightarrow> Inl (UnboundLocalError ''trep'')
           | Some tr \<Rightarrow>
               Inr (if t_max tr > t then [(TAbove (t_max tr) t, RebinSensitive)] else [])))"

text \<open>Lines 388 to 393: the linkage attack, run when an external frame is given.\<close>

definition attack_simulation_step ::
  "dataframe \<Rightarrow> dataframe option \<Rightarrow> string list \<Rightarrow> real option \<Rightarrow>
   error + (LinkageAttackResult option \<times> (risk_flag \<times> repair) list)" where
  "attack_simulation_step df external_df qi_cols reid_required =
     (case external_df of
        None \<Rightarrow> Inr (None, [])
      | Some ext \<Rightarrow>
          (case simulate_linkage_attack df ext qi_cols of
             Inl e \<Rightarrow> Inl e
           | Inr attack_results \<Rightarrow>
               Inr (Some attack_results,
                    (case reid_required of
                       None \<Rightarrow> []
                     | Some reid \<Rightarrow>
                         if reid_probability attack_results > reid
                         then [(ReidAbove (reid_probability attack_results) reid,
                                SuppressUniqueCombinations)]
                         else []))))"

text \<open>
  Lines 398 to 421: the rare classes and the classes dominated by one sensitive value, in
  the order of the classes. The dominant value is the first of the largest share.
\<close>

datatype rare_combination = RareCombination "(string \<times> cell) list" nat

datatype sensitive_skew = SensitiveSkew "(string \<times> cell) list" cell real

definition value_shares :: "cell list \<Rightarrow> (cell \<times> real) list" where
  "value_shares cs = map (\<lambda>v. (v, real (count_list cs v) / real (length cs))) (remdups cs)"

definition rare_combinations_of ::
  "string list \<Rightarrow> int \<Rightarrow> (cell list \<times> row list) list \<Rightarrow> rare_combination list" where
  "rare_combinations_of qi_cols rare_threshold grouped =
     map (\<lambda>(qi_vals, group). RareCombination (zip qi_cols qi_vals) (length group))
       (filter (\<lambda>(qi_vals, group). int (length group) \<le> rare_threshold) grouped)"

definition sensitive_skew_of ::
  "string list \<Rightarrow> string \<Rightarrow> real \<Rightarrow> (cell list \<times> row list) list \<Rightarrow> sensitive_skew list" where
  "sensitive_skew_of qi_cols sensitive_col dominance_threshold grouped =
     concat (map (\<lambda>(qi_vals, group).
       let dist = value_shares (map (\<lambda>r. r sensitive_col) group)
       in if dist \<noteq> [] \<and> Max (set (map snd dist)) > dominance_threshold
          then [SensitiveSkew (zip qi_cols qi_vals)
                  (fst (hd (filter (\<lambda>(v, share). share = Max (set (map snd dist))) dist)))
                  (Max (set (map snd dist)))]
          else []) grouped)"

text \<open>
  Lines 423 to 453 measure the association of every QI column with the sensitive column by
  the correlation routine of pandas and the chi-square test of scipy, inside a \<^verbatim>\<open>try\<close>
  whose handler catches every exception and stores its message. Their outcome, the list
  of entries and the message if any, is a parameter of the model.
\<close>

datatype association =
    Correlation string string real
  | CramersV string string real real real

type_synonym association_measure =
  "dataframe \<Rightarrow> string list \<Rightarrow> string \<Rightarrow> association list \<times> string option"

record BehaviourPatterns =
  rare_combinations :: "rare_combination list"
  sensitive_skew :: "sensitive_skew list"
  qi_sensitive_correlation :: "association list"
  correlation_error :: "string option"

record Report =
  schema_version :: string
  params :: Params
  suggested_thresholds :: Thresholds
  data_summary_of :: DataSummary
  k_anonymity_of :: "KAnonymityReport option"
  l_diversity_of :: "LDiversityReport option"
  t_closeness_of :: "TClosenessReport option"
  attack_simulation :: "LinkageAttackResult option"
  risk_flags :: "risk_flag list"
  repair_suggestions :: "repair list"
  behaviour_patterns :: BehaviourPatterns

text \<open>Lines 366 to 456: what follows the three analyzers and the log.\<close>

definition assemble_report ::
  "association_measure \<Rightarrow> dataframe \<Rightarrow> Params \<Rightarrow> dataframe option \<Rightarrow> Thresholds \<Rightarrow>
   KAnonymityReport option \<Rightarrow> LDiversityReport option \<Rightarrow> TClosenessReport option \<Rightarrow>
   error + Report" where
  "assemble_report assoc df p external_df suggested krep lrep trep =
     (case k_flag (p_k_required p) krep (p_qi p) of
        Inl e \<Rightarrow> Inl e
      | Inr k_flags \<Rightarrow>
     (case l_flag (p_l_required p) (p_l_method p) lrep of
        Inl e \<Rightarrow> Inl e
      | Inr l_flags \<Rightarrow>
     (case t_flag (p_t_required p) trep of
        Inl e \<Rightarrow> Inl e
      | Inr t_flags \<Rightarrow>
     (case attack_simulation_step df external_df (p_qi p) (p_reid_required p) of
        Inl e \<Rightarrow> Inl e
      | Inr (attack_results, reid_flags) \<Rightarrow>
     (case groupby df (p_qi p) of
        Inl e \<Rightarrow> Inl e
      | Inr grouped \<Rightarrow>
          let flags = k_flags @ l_flags @ t_flags @ reid_flags;
              (entries, message) = assoc df (p_qi p) (p_sensitive p)
          in Inr \<lparr> schema_version = ''1.0.0'',
                   params = p,
                   suggested_thresholds = suggested,
                   data_summary_of = data_summary df,
                   k_anonymity_of = krep,
                   l_diversity_of = lrep,
                   t_closeness_of = trep,
                   attack_simulation = attack_results,
                   risk_flags = map fst flags,
                   repair_suggestions = map snd flags,
                   behaviour_patterns =
                     \<lparr> rare_combinations = rare_combinations_of (p_qi p) (p_rare_threshold p) grouped,
                       sensitive_skew =
                         sensitive_skew_of (p_qi p) (p_sensitive p) (p_dominance_threshold p) grouped,
                       qi_sensitive_correlation = entries,
                       correlation_error = message \<rparr> \<rparr>)))))"

text \<open>
  \<^verbatim>\<open>full_report\<close>: the suggested thresholds first, outside any \<^verbatim>\<open>try\<close>; then the three
  analyzers, each in its own \<^verbatim>\<open>try\<close>; the log; the rest.
\<close>

definition full_report ::
  "association_measure \<Rightarrow> Params \<Rightarrow> dataframe option \<Rightarrow> world \<Rightarrow> (error + Report) \<times> world" where
  "full_report assoc p external_df w =
     (let df = self_df w in
      case suggest_thresholds df (p_qi p) (p_sensitive p) of
        Inl e \<Rightarrow> (Inl e, w)
      | Inr suggested \<Rightarrow>
          let k_result = k_anonymity df (p_qi p);
              l_result = l_diversity df (p_qi p) (p_sensitive p) (p_l_method p);
              t_result = t_closeness df (p_qi p) (p_sensitive p) (p_numeric_bins p)
                           (p_binning_method p) (p_t_method p);
              debug_lines = [LogQI (p_qi p), LogSensitive (p_sensitive p),
                             LogK k_result, LogL l_result, LogT t_result]
          in (assemble_report assoc df p external_df suggested
                (bound k_result) (bound l_result) (bound t_result),
              write_log debug_lines w))"

section \<open>Object store\<close>

text \<open>
  What a call changes is a matter of objects. A data frame is an object of the
  interpreter, at an address of the store; \<^verbatim>\<open>self.df = df\<close> at line 155 keeps the address of
  the frame of the caller and copies nothing, and the external frame handed to
  \<^verbatim>\<open>full_report\<close> may be that very object. The store also holds the log file. A program
  runs on a store and leaves a value or an exception, and a store.
\<close>

type_synonym ref = nat

record store =
  objects :: "dataframe list"
  logfile :: "log_line list"
  logfile_writable :: bool

type_synonym 'a prog = "store \<Rightarrow> (error + 'a) \<times> store"

text \<open>
  Sequencing: \<open>and_then\<close> stops at the first exception and keeps what was written before
  it; \<open>attempt\<close> is a \<^verbatim>\<open>try\<close> whose handler catches every exception.
\<close>

definition ret :: "'a \<Rightarrow> 'a prog" where
  "ret x = (\<lambda>st. (Inr x, st))"

definition raise_error :: "error \<Rightarrow> 'a prog" where
  "raise_error e = (\<lambda>st. (Inl e, st))"

definition lift_result :: "error + 'a \<Rightarrow> 'a prog" where
  "lift_result res = (\<lambda>st. (res, st))"

definition and_then :: "'a prog \<Rightarrow> ('a \<Rightarrow> 'b prog) \<Rightarrow> 'b prog" where
  "and_then m f =
     (\<lambda>st. case m st of (Inl e, st') \<Rightarrow> (Inl e, st') | (Inr x, st') \<Rightarrow> f x st')"

definition attempt :: "'a prog \<Rightarrow> (error + 'a) prog" where
  "attempt m = (\<lambda>st. case m st of (res, st') \<Rightarrow> (Inr res, st'))"

text \<open>
  Reading an object, creating one at a fresh address, and writing over one. The addresses
  a program holds are addresses of the store.
\<close>

definition read_frame :: "ref \<Rightarrow> dataframe prog" where
  "read_frame r = (\<lambda>st. (Inr (objects st ! r), st))"

definition alloc :: "dataframe \<Rightarrow> ref prog" where
  "alloc v = (\<lambda>st. (Inr (length (objects st)), st\<lparr> objects := objects st @ [v] \<rparr>))"

definition overwrite :: "ref \<Rightarrow> dataframe \<Rightarrow> unit prog" where
  "overwrite r v = (\<lambda>st. (Inr (), st\<lparr> objects := (objects st)[r := v] \<rparr>))"

text \<open>
  The convention of the pandas methods that take \<^verbatim>\<open>inplace\<close>: with \<^verbatim>\<open>inplace=True\<close> the
  receiver is written over and \<^verbatim>\<open>None\<close> is returned, otherwise the result is a new object.
  A method called on \<^verbatim>\<open>None\<close> raises.
\<close>

definition deliver :: "bool \<Rightarrow> ref \<Rightarrow> dataframe \<Rightarrow> ref option prog" where
  "deliver inplace r v =
     (if inplace then and_then (overwrite r v) (\<lambda>u. ret None)
      else and_then (alloc v) (\<lambda>r'. ret (Some r')))"

definition the_object :: "ref option \<Rightarrow> ref prog" where
  "the_object res =
     (case res of
        None \<Rightarrow> raise_error (AttributeError ''NoneType object has no such attribute'')
      | Some r \<Rightarrow> ret r)"

text \<open>
  The calls that the source makes on a frame. \<^verbatim>\<open>copy\<close>, \<^verbatim>\<open>loc\<close> and \<^verbatim>\<open>merge\<close> return new
  frames (the merged frame is kept as the value it is grouped from); \<^verbatim>\<open>reset_index\<close>,
  \<^verbatim>\<open>rename\<close> and \<^verbatim>\<open>drop\<close> take \<^verbatim>\<open>inplace\<close>; \<^verbatim>\<open>groupby\<close>, \<^verbatim>\<open>df[col]\<close>, \<^verbatim>\<open>len\<close>,
  \<^verbatim>\<open>columns\<close>, the dtype and \<^verbatim>\<open>to_dict\<close> read. The methods that the source calls on a
  column or on an array taken from it (\<^verbatim>\<open>dropna\<close>, \<^verbatim>\<open>nunique\<close>, \<^verbatim>\<open>value_counts\<close>,
  \<^verbatim>\<open>isna\<close>, \<^verbatim>\<open>unique\<close>, \<^verbatim>\<open>max\<close>, \<^verbatim>\<open>min\<close>, the numpy and scipy functions) return new
  values and are the functions of the sections above.
\<close>

definition df_copy :: "ref \<Rightarrow> ref prog" where
  "df_copy r = and_then (read_frame r) alloc"

definition df_reset_index :: "ref \<Rightarrow> bool \<Rightarrow> ref option prog" where
  "df_reset_index r inplace =
     and_then (read_frame r) (\<lambda>df.
     and_then (lift_result (reset_index df)) (deliver inplace r))"

definition df_rename :: "ref \<Rightarrow> string \<Rightarrow> string \<Rightarrow> bool \<Rightarrow> ref option prog" where
  "df_rename r old new inplace =
     and_then (read_frame r) (\<lambda>df. deliver inplace r (rename_column old new df))"

text \<open>\<^verbatim>\<open>drop(columns=c, errors="ignore")\<close>.\<close>

definition drop_column :: "string \<Rightarrow> dataframe \<Rightarrow> dataframe" where
  "drop_column c df =
     \<lparr> columns = filter (\<lambda>d. d \<noteq> c) (columns df),
       dtypes = dtypes df,
       rows = map (\<lambda>r. r(c := NaN)) (rows df) \<rparr>"

definition df_drop :: "ref \<Rightarrow> string \<Rightarrow> bool \<Rightarrow> ref option prog" where
  "df_drop r c inplace =
     and_then (read_frame r) (\<lambda>df. deliver inplace r (drop_column c df))"

definition df_merge :: "ref \<Rightarrow> ref \<Rightarrow> string list \<Rightarrow> (row \<times> bool) list prog" where
  "df_merge l r keys =
     and_then (read_frame l) (\<lambda>left.
     and_then (read_frame r) (\<lambda>right.
     lift_result (merge_left_indicator left right keys)))"

definition df_loc :: "ref \<Rightarrow> cell list \<Rightarrow> ref prog" where
  "df_loc r labels =
     and_then (read_frame r) (\<lambda>df.
     and_then (lift_result (apply_each (loc_row df) labels)) (\<lambda>hit.
     alloc (df\<lparr> rows := hit \<rparr>)))"

definition df_to_dict :: "ref \<Rightarrow> (string \<times> cell) list list prog" where
  "df_to_dict r = and_then (read_frame r) (\<lambda>df. ret (map (to_record (columns df)) (rows df)))"

definition df_groupby :: "ref \<Rightarrow> string list \<Rightarrow> (cell list \<times> row list) list prog" where
  "df_groupby r keys = and_then (read_frame r) (\<lambda>df. lift_result (groupby df keys))"

definition df_groupby_col ::
  "ref \<Rightarrow> string list \<Rightarrow> string \<Rightarrow> (cell list \<times> cell list) list prog" where
  "df_groupby_col r keys c = and_then (read_frame r) (\<lambda>df. lift_result (groupby_col df keys c))"

definition df_getitem :: "ref \<Rightarrow> string \<Rightarrow> cell list prog" where
  "df_getitem r c = and_then (read_frame r) (\<lambda>df. lift_result (get_column df c))"

definition df_dtype :: "ref \<Rightarrow> string \<Rightarrow> dtype prog" where
  "df_dtype r c = and_then (read_frame r) (\<lambda>df. ret (dtypes df c))"

definition df_len :: "ref \<Rightarrow> nat prog" where
  "df_len r = and_then (read_frame r) (\<lambda>df. ret (length (rows df)))"

definition df_columns :: "ref \<Rightarrow> string list prog" where
  "df_columns r = and_then (read_frame r) (\<lambda>df. ret (columns df))"

text \<open>Lines 351 to 356: appending to \<^verbatim>\<open>log.txt\<close>, a failure swallowed.\<close>

definition append_log :: "log_line list \<Rightarrow> unit prog" where
  "append_log debug_lines =
     (\<lambda>st. (Inr (), if logfile_writable st
                      then st\<lparr> logfile := logfile st @ debug_lines \<rparr> else st))"

text \<open>A loop over a list, ended by the first exception.\<close>

fun for_each :: "('a \<Rightarrow> 'b prog) \<Rightarrow> 'a list \<Rightarrow> 'b list prog" where
  "for_each f [] = ret []"
| "for_each f (x # xs) =
     and_then (f x) (\<lambda>y. and_then (for_each f xs) (\<lambda>ys. ret (y # ys)))"

subsection \<open>The methods as programs\<close>

text \<open>
  The methods of the validator and the linkage attack once more, call by call, on the
  object \<^verbatim>\<open>self.df\<close> refers to. Every call is made as the source makes it, none with
  \<^verbatim>\<open>inplace=True\<close>. The programs return what the functions of the sections above return
  (lemmas \<open>k_anonymity_m_run\<close> to \<open>full_report_m_refines\<close>).
\<close>

definition k_anonymity_m :: "ref \<Rightarrow> string list \<Rightarrow> KAnonymityReport prog" where
  "k_anonymity_m self qi_cols =
     and_then (df_groupby self qi_cols) (\<lambda>grouped.
       let eq_class_sizes = map (\<lambda>(k, rs). length rs) grouped
       in ret \<lparr> k_min = (if eq_class_sizes \<noteq> [] then Min (set eq_class_sizes) else 0),
                 k_avg = (if eq_class_sizes \<noteq> [] then mean (map real eq_class_sizes) else 0),
                 eq_class_size_hist = value_counts_sorted eq_class_sizes \<rparr>)"

definition l_diversity_m :: "ref \<Rightarrow> string list \<Rightarrow> string \<Rightarrow> string \<Rightarrow> LDiversityReport prog" where
  "l_diversity_m self qi_cols sensitive_col method =
     and_then (df_groupby_col self qi_cols sensitive_col) (\<lambda>grp.
       if method = ''distinct'' then
         let l_values = map (\<lambda>(k, cs). real (nunique_keepna cs)) grp
         in ret \<lparr> l_rep_method = method,
                   l_min = (if l_values \<noteq> [] then Min (set l_values) else 0),
                   l_avg = (if l_values \<noteq> [] then mean l_values else 0),
                   entropy_min = None, entropy_avg = None,
                   entropy_effective_min = None, entropy_effective_avg = None \<rparr>
       else if method = ''entropy'' then
         let probs = map (\<lambda>(k, cs). (k, value_shares_keepna cs)) grp;
             entropies = map (\<lambda>(k, p). safe_entropy p) (regroup_by_level probs);
             entropy_min' = (if entropies \<noteq> [] then Min (set entropies) else 0);
             entropy_avg' = (if entropies \<noteq> [] then mean entropies else 0);
             distinct_l = map (\<lambda>(k, cs). real (nunique_keepna cs)) grp
         in ret \<lparr> l_rep_method = method,
                   l_min = (if distinct_l \<noteq> [] then Min (set distinct_l) else 0),
                   l_avg = (if distinct_l \<noteq> [] then mean distinct_l else 0),
                   entropy_min = Some entropy_min',
                   entropy_avg = Some entropy_avg',
                   entropy_effective_min = Some (2 powr entropy_min'),
                   entropy_effective_avg = Some (2 powr entropy_avg') \<rparr>
       else raise_error (ValueError ''method must be distinct or entropy''))"

definition t_closeness_m ::
  "ref \<Rightarrow> string list \<Rightarrow> string \<Rightarrow> int \<Rightarrow> string \<Rightarrow> string \<Rightarrow> TClosenessReport prog" where
  "t_closeness_m self qi_cols sensitive_col numeric_bins binning_method t_method =
     and_then (df_getitem self sensitive_col) (\<lambda>s.
     and_then (df_dtype self sensitive_col) (\<lambda>d.
     and_then (lift_result (prepare_dist d s numeric_bins binning_method t_method))
       (\<lambda>(bins', dist_func).
     and_then (df_groupby_col self qi_cols sensitive_col) (\<lambda>grp.
       case dist_func of
         None \<Rightarrow> raise_error (UnboundLocalError ''dist_func'')
       | Some f \<Rightarrow>
           and_then (lift_result (apply_each f (map snd grp))) (\<lambda>t_values.
             ret \<lparr> t_max = (if t_values \<noteq> [] then Max (set t_values) else 0),
                   t_avg = (if t_values \<noteq> [] then mean t_values else 0),
                   bins = bins',
                   t_rep_method = t_method \<rparr>)))))"

definition suggest_thresholds_m :: "ref \<Rightarrow> string list \<Rightarrow> string \<Rightarrow> Thresholds prog" where
  "suggest_thresholds_m self qi_cols sensitive_col =
     and_then (df_len self) (\<lambda>n_rows.
     and_then (df_getitem self sensitive_col) (\<lambda>s.
     and_then (df_dtype self sensitive_col) (\<lambda>d.
       ret \<lparr> suggested_k = (if n_rows < 1000 then 5 else if n_rows < 10000 then 10 else 20),
             suggested_l = (if length (remdups (dropna s)) \<le> 10 then 2 else 3),
             suggested_t = (if is_numeric_dtype d then 2 / 10 else 3 / 10),
             suggested_reid_probability = (if n_rows > 1000 then 5 / 100 else 1 / 10) \<rparr>)))"

definition simulate_linkage_attack_m ::
  "ref \<Rightarrow> ref \<Rightarrow> string list \<Rightarrow> LinkageAttackResult prog" where
  "simulate_linkage_attack_m anonymised_df aux_df qi_cols =
     and_then (df_copy aux_df) (\<lambda>copied.
     and_then (and_then (df_reset_index copied False) the_object) (\<lambda>indexed.
     and_then (and_then (df_rename indexed ''index'' ''__aux_id__'' False) the_object) (\<lambda>aux.
     and_then (df_merge aux anonymised_df qi_cols) (\<lambda>merged.
     and_then (df_columns anonymised_df) (\<lambda>anonymised_columns.
     and_then (df_columns aux) (\<lambda>aux_columns.
     and_then (df_len aux) (\<lambda>n.
       if ''__aux_id__'' \<in> set anonymised_columns - set qi_cols
       then raise_error (KeyError ''__aux_id__'')
       else if count_list aux_columns ''__aux_id__'' \<noteq> 1
       then raise_error (ValueError ''Grouper for __aux_id__ not 1-dimensional'')
       else
         let by_id = group_by (\<lambda>(a, both). a ''__aux_id__'')
                       (filter (\<lambda>(a, both). \<not> isna (a ''__aux_id__'')) merged);
             counts = map (\<lambda>(g, ms). (g, length (filter snd ms))) by_id;
             unique' = length (filter (\<lambda>(g, c). c = 1) counts);
             multiple' = length (filter (\<lambda>(g, c). c > 1) counts);
             none' = length (filter (\<lambda>(g, c). c = 0) counts)
         in if counts = []
            then raise_error
                   (TypeError ''Unordered Categoricals can only compare equality or not'')
            else
              and_then (df_loc aux (map fst (filter (\<lambda>(g, c). c = 1) counts))) (\<lambda>hit.
              and_then (and_then (df_drop hit ''__aux_id__'' False) the_object) (\<lambda>shown.
              and_then (df_to_dict shown) (\<lambda>flagged'.
                ret \<lparr> unique = unique', multiple = multiple', none = none',
                      flagged = flagged',
                      records_tested = n,
                      reid_probability =
                        (if n \<noteq> 0 then real unique' / real n else 0) \<rparr>))))))))))"

definition attack_simulation_step_m ::
  "ref \<Rightarrow> ref option \<Rightarrow> string list \<Rightarrow> real option \<Rightarrow>
   (LinkageAttackResult option \<times> (risk_flag \<times> repair) list) prog" where
  "attack_simulation_step_m self external_df qi_cols reid_required =
     (case external_df of
        None \<Rightarrow> ret (None, [])
      | Some ext \<Rightarrow>
          and_then (simulate_linkage_attack_m self ext qi_cols) (\<lambda>attack_results.
            ret (Some attack_results,
                 (case reid_required of
                    None \<Rightarrow> []
                  | Some reid \<Rightarrow>
                      if reid_probability attack_results > reid
                      then [(ReidAbove (reid_probability attack_results) reid,
                             SuppressUniqueCombinations)]
                      else []))))"

definition data_summary_m :: "ref \<Rightarrow> DataSummary prog" where
  "data_summary_m self =
     and_then (df_len self) (\<lambda>n.
     and_then (df_columns self) (\<lambda>cols.
     and_then (for_each (\<lambda>c. and_then (df_getitem self c) (\<lambda>s. ret (c, missing_rate s))) cols)
       (\<lambda>rates.
       ret \<lparr> n_rows = n, n_cols = length cols, missing_rates = rates \<rparr>)))"

text \<open>
  The association measures read the bound frame (\<^verbatim>\<open>df[col]\<close>, \<^verbatim>\<open>df[[a, b]].corr()\<close>,
  \<^verbatim>\<open>pd.crosstab\<close>, \<^verbatim>\<open>len\<close>) and build new tables.
\<close>

definition association_m ::
  "association_measure \<Rightarrow> ref \<Rightarrow> string list \<Rightarrow> string \<Rightarrow> (association list \<times> string option) prog" where
  "association_m assoc self qi_cols sensitive_col =
     and_then (read_frame self) (\<lambda>df. ret (assoc df qi_cols sensitive_col))"

definition assemble_report_m ::
  "association_measure \<Rightarrow> ref \<Rightarrow> Params \<Rightarrow> ref option \<Rightarrow> Thresholds \<Rightarrow> DataSummary \<Rightarrow>
   KAnonymityReport option \<Rightarrow> LDiversityReport option \<Rightarrow> TClosenessReport option \<Rightarrow>
   Report prog" where
  "assemble_report_m assoc self p external_df suggested summary krep lrep trep =
     and_then (lift_result (k_flag (p_k_required p) krep (p_qi p))) (\<lambda>k_flags.
     and_then (lift_result (l_flag (p_l_required p) (p_l_method p) lrep)) (\<lambda>l_flags.
     and_then (lift_result (t_flag (p_t_required p) trep)) (\<lambda>t_flags.
     and_then (attack_simulation_step_m self external_df (p_qi p) (p_reid_required p))
       (\<lambda>(attack_results, reid_flags).
     and_then (df_groupby self (p_qi p)) (\<lambda>grouped.
     and_then (association_m assoc self (p_qi p) (p_sensitive p)) (\<lambda>(entries, message).
       let flags = k_flags @ l_flags @ t_flags @ reid_flags
       in ret \<lparr> schema_version = ''1.0.0'',
                 params = p,
                 suggested_thresholds = suggested,
                 data_summary_of = summary,
                 k_anonymity_of = krep,
                 l_diversity_of = lrep,
                 t_closeness_of = trep,
                 attack_simulation = attack_results,
                 risk_flags = map fst flags,
                 repair_suggestions = map snd flags,
                 behaviour_patterns =
                   \<lparr> rare_combinations =
                       rare_combinations_of (p_qi p) (p_rare_threshold p) grouped,
                     sensitive_skew =
                       sensitive_skew_of (p_qi p) (p_sensitive p) (p_dominance_threshold p)
                         grouped,
                     qi_sensitive_correlation = entries,
                     correlation_error = message \<rparr> \<rparr>))))))"

definition full_report_m ::
  "association_measure \<Rightarrow> ref \<Rightarrow> Params \<Rightarrow> ref option \<Rightarrow> Report prog" where
  "full_report_m assoc self p external_df =
     and_then (suggest_thresholds_m self (p_qi p) (p_sensitive p)) (\<lambda>suggested.
     and_then (data_summary_m self) (\<lambda>summary.
     and_then (attempt (k_anonymity_m self (p_qi p))) (\<lambda>k_result.
     and_then (attempt (l_diversity_m self (p_qi p) (p_sensitive p) (p_l_method p))) (\<lambda>l_result.
     and_then (attempt (t_closeness_m self (p_qi p) (p_sensitive p) (p_numeric_bins p)
                          (p_binning_method p) (p_t_method p))) (\<lambda>t_result.
     and_then (append_log [LogQI (p_qi p), LogSensitive (p_sensitive p),
                           LogK k_result, LogL l_result, LogT t_result]) (\<lambda>u.
       assemble_report_m assoc self p external_df suggested summary
         (bound k_result) (bound l_result) (bound t_result)))))))"

section \<open>Calls on a validator\<close>

text \<open>
  A validator is the address \<open>self\<close> of its frame. A call is one of its five methods with
  its arguments; the external frame of \<^verbatim>\<open>full_report\<close> is given by its address.
\<close>

datatype call =
    CallKAnonymity "string list"
  | CallLDiversity "string list" string string
  | CallTCloseness "string list" string int string string
  | CallSuggestThresholds "string list" string
  | CallFullReport Params "ref option"

datatype outcome =
    OutK "error + KAnonymityReport"
  | OutL "error + LDiversityReport"
  | OutT "error + TClosenessReport"
  | OutThresholds "error + Thresholds"
  | OutReport "error + Report"

fun perform :: "association_measure \<Rightarrow> ref \<Rightarrow> call \<Rightarrow> store \<Rightarrow> outcome \<times> store" where
  "perform assoc self (CallKAnonymity qi_cols) st =
     (let (res, st') = k_anonymity_m self qi_cols st in (OutK res, st'))"
| "perform assoc self (CallLDiversity qi_cols sensitive_col method) st =
     (let (res, st') = l_diversity_m self qi_cols sensitive_col method st in (OutL res, st'))"
| "perform assoc self (CallTCloseness qi_cols sensitive_col numeric_bins binning_method t_method) st =
     (let (res, st') = t_closeness_m self qi_cols sensitive_col numeric_bins binning_method
                         t_method st
      in (OutT res, st'))"
| "perform assoc self (CallSuggestThresholds qi_cols sensitive_col) st =
     (let (res, st') = suggest_thresholds_m self qi_cols sensitive_col st
      in (OutThresholds res, st'))"
| "perform assoc self (CallFullReport p external_df) st =
     (let (res, st') = full_report_m assoc self p external_df st in (OutReport res, st'))"

fun perform_all ::
  "association_measure \<Rightarrow> ref \<Rightarrow> call list \<Rightarrow> store \<Rightarrow> outcome list \<times> store" where
  "perform_all assoc self [] st = ([], st)"
| "perform_all assoc self (c # cs) st =
     (let (out, st') = perform assoc self c st;
          (outs, st'') = perform_all assoc self cs st'
      in (out # outs, st''))"

section \<open>Frame conditions\<close>

text \<open>
  A program keeps the objects when every object of the store it starts on is the same, at
  the same address, in the store it ends on. The pure model of \<^verbatim>\<open>full_report\<close> sees of a
  store the frame of the validator and the log.
\<close>

definition keeps_objects :: "'a prog \<Rightarrow> bool" where
  "keeps_objects m = (\<forall>st. take (length (objects st)) (objects (snd (m st))) = objects st)"

definition world_of :: "ref \<Rightarrow> store \<Rightarrow> world" where
  "world_of self st =
     \<lparr> self_df = objects st ! self, log_txt = logfile st, log_writable = logfile_writable st \<rparr>"

section \<open>Command line\<close>

record Args =
  a_qi :: "string list"
  a_sensitive :: string
  a_k :: int
  a_l :: real
  a_l_method :: string
  a_reid_probability :: real
  a_t :: real
  a_numeric_bins :: int
  a_dominance_threshold :: real
  a_rare_threshold :: int
  a_binning_method :: string

text \<open>
  Lines 52 to 81 of \<^verbatim>\<open>anonymisation_validator_cli.py\<close>, from the two frames read to the
  report: the validation of the columns, the construction of the validator, the call.
  The \<open>world\<close> given is the log file; its data frame is set at construction.
\<close>

definition cli_main ::
  "association_measure \<Rightarrow> Args \<Rightarrow> dataframe \<Rightarrow> dataframe option \<Rightarrow> world \<Rightarrow>
   (error + Report) \<times> world" where
  "cli_main assoc args df aux_df w =
     (let missing_cols = filter (\<lambda>c. c \<notin> set (columns df)) (a_qi args @ [a_sensitive args]);
          missing_aux = (case aux_df of
                           None \<Rightarrow> []
                         | Some aux \<Rightarrow> filter (\<lambda>c. c \<notin> set (columns aux)) (a_qi args))
      in if missing_cols \<noteq> [] then (Inl (SystemExit ''ERROR: Missing columns in data''), w)
         else if missing_aux \<noteq> []
         then (Inl (SystemExit ''ERROR: Missing QI columns in external aux data''), w)
         else full_report assoc
                \<lparr> p_qi = a_qi args, p_sensitive = a_sensitive args,
                  p_k_required = Some (a_k args), p_l_required = Some (a_l args),
                  p_l_method = a_l_method args, p_t_required = Some (a_t args),
                  p_reid_required = Some (a_reid_probability args),
                  p_numeric_bins = a_numeric_bins args,
                  p_dominance_threshold = a_dominance_threshold args,
                  p_rare_threshold = a_rare_threshold args,
                  p_binning_method = a_binning_method args, p_t_method = ''tvd'' \<rparr>
                aux_df (w\<lparr> self_df := df \<rparr>))"

section \<open>Fixtures\<close>

text \<open>The data frame of \<^verbatim>\<open>tests/test_basic_metrics.py\<close>.\<close>

definition mk_row :: "(string \<times> cell) list \<Rightarrow> row" where
  "mk_row kvs = (\<lambda>c. case map_of kvs c of Some v \<Rightarrow> v | None \<Rightarrow> NaN)"

definition simple_row :: "string \<Rightarrow> string \<Rightarrow> string \<Rightarrow> real \<Rightarrow> row" where
  "simple_row a z d i =
     mk_row [(''age_band'', Str a), (''zip'', Str z), (''disease'', Str d), (''income'', Num i)]"

definition simple_df :: dataframe where
  "simple_df =
     \<lparr> columns = [''age_band'', ''zip'', ''disease'', ''income''],
       dtypes = (\<lambda>c. if c = ''income'' then IntD else ObjectD),
       rows = [simple_row ''20-29'' ''12345'' ''HIV'' 50,
               simple_row ''20-29'' ''12345'' ''Flu'' 60,
               simple_row ''30-39'' ''54321'' ''HIV'' 70,
               simple_row ''30-39'' ''54321'' ''HIV'' 80,
               simple_row ''30-39'' ''54321'' ''Cancer'' 90] \<rparr>"

text \<open>
  A small frame with a numeric sensitive column whose interquartile range is zero, so
  that the bin width comes from the range and the bin count.
\<close>

definition score_row :: "string \<Rightarrow> real \<Rightarrow> row" where
  "score_row g v = mk_row [(''grp'', Str g), (''score'', Num v)]"

definition skewed_df :: dataframe where
  "skewed_df =
     \<lparr> columns = [''grp'', ''score''],
       dtypes = (\<lambda>c. if c = ''score'' then IntD else ObjectD),
       rows = [score_row ''a'' 1, score_row ''a'' 1, score_row ''a'' 1,
               score_row ''b'' 1, score_row ''b'' 5] \<rparr>"

text \<open>
  A frame read from a file with an empty cell in the QI column, and a frame with its
  columns and no row.
\<close>

definition ward_row :: "cell \<Rightarrow> string \<Rightarrow> row" where
  "ward_row w d = mk_row [(''ward'', w), (''diagnosis'', Str d)]"

definition missing_key_df :: dataframe where
  "missing_key_df =
     \<lparr> columns = [''ward'', ''diagnosis''],
       dtypes = (\<lambda>c. ObjectD),
       rows = [ward_row NaN ''flu'', ward_row (Str ''b'') ''flu'', ward_row (Str ''b'') ''hiv''] \<rparr>"

definition empty_df :: dataframe where
  "empty_df = \<lparr> columns = [''ward'', ''diagnosis''], dtypes = (\<lambda>c. ObjectD), rows = [] \<rparr>"

text \<open>
  An auxiliary frame that has a column called \<^verbatim>\<open>index\<close>, with the frame it is linked to.
\<close>

definition household_row :: "real \<Rightarrow> string \<Rightarrow> row" where
  "household_row i z = mk_row [(''index'', Num i), (''zip'', Str z)]"

definition household_aux :: dataframe where
  "household_aux =
     \<lparr> columns = [''index'', ''zip''],
       dtypes = (\<lambda>c. if c = ''index'' then IntD else ObjectD),
       rows = [household_row 7 ''12345'', household_row 7 ''54321''] \<rparr>"

definition zip_only_df :: dataframe where
  "zip_only_df =
     \<lparr> columns = [''zip''], dtypes = (\<lambda>c. ObjectD),
       rows = [mk_row [(''zip'', Str ''12345'')], mk_row [(''zip'', Str ''54321'')]] \<rparr>"

text \<open>
  The test frame of the linkage attack in \<^verbatim>\<open>tests/test_basic_metrics.py\<close>.
\<close>

definition test_aux :: dataframe where
  "test_aux =
     \<lparr> columns = [''age_band'', ''zip''], dtypes = (\<lambda>c. ObjectD),
       rows = [mk_row [(''age_band'', Str ''20-29''), (''zip'', Str ''12345'')],
               mk_row [(''age_band'', Str ''30-39''), (''zip'', Str ''54321'')],
               mk_row [(''age_band'', Str ''30-39''), (''zip'', Str ''54321'')],
               mk_row [(''age_band'', Str ''99-99''), (''zip'', Str ''00000'')]] \<rparr>"

text \<open>
  An association measure that finds nothing, a validator state with an empty writable
  log, a frame one of whose classes has no sensitive value, an external frame without
  the QI column, and the arguments of the calls made on them below.
\<close>

definition no_association :: association_measure where
  "no_association df qi_cols sensitive_col = ([], None)"

definition fresh_world :: "dataframe \<Rightarrow> world" where
  "fresh_world df = \<lparr> self_df = df, log_txt = [], log_writable = True \<rparr>"

definition gap_df :: dataframe where
  "gap_df =
     \<lparr> columns = [''grp'', ''score''],
       dtypes = (\<lambda>c. if c = ''score'' then FloatD else ObjectD),
       rows = [mk_row [(''grp'', Str ''a''), (''score'', NaN)],
               score_row ''b'' 1, score_row ''b'' 5] \<rparr>"

definition emd_params :: Params where
  "emd_params =
     \<lparr> p_qi = [''grp''], p_sensitive = ''score'',
       p_k_required = None, p_l_required = None, p_l_method = ''distinct'',
       p_t_required = Some (2 / 10), p_reid_required = None,
       p_numeric_bins = 15, p_dominance_threshold = 9 / 10, p_rare_threshold = 1,
       p_binning_method = ''fd'', p_t_method = ''emd'' \<rparr>"

definition skewed_params :: Params where
  "skewed_params =
     \<lparr> p_qi = [''grp''], p_sensitive = ''score'',
       p_k_required = None, p_l_required = None, p_l_method = ''distinct'',
       p_t_required = None, p_reid_required = None,
       p_numeric_bins = 2, p_dominance_threshold = 9 / 10, p_rare_threshold = 1,
       p_binning_method = ''fd'', p_t_method = ''tvd'' \<rparr>"

definition scores_only_df :: dataframe where
  "scores_only_df =
     \<lparr> columns = [''score''], dtypes = (\<lambda>c. IntD), rows = [mk_row [(''score'', Num 1)]] \<rparr>"

definition cli_args :: Args where
  "cli_args =
     \<lparr> a_qi = [''grp''], a_sensitive = ''score'', a_k = 5, a_l = 2, a_l_method = ''entropy'',
       a_reid_probability = 5 / 100, a_t = 2 / 10, a_numeric_bins = 15,
       a_dominance_threshold = 9 / 10, a_rare_threshold = 1, a_binning_method = ''fd'' \<rparr>"

text \<open>A store with two frames and an empty log.\<close>

definition two_frames :: store where
  "two_frames =
     \<lparr> objects = [skewed_df, scores_only_df], logfile = [], logfile_writable = True \<rparr>"

section \<open>Properties of the grouping engine and of k-anonymity\<close>

lemma group_by_sizes: "sum_list (map (\<lambda>(k, rs). length rs) (group_by f xs)) = length xs"
proof (induction f xs rule: group_by.induct)
  case (1 f)
  show ?case by simp
next
  case (2 f x xs)
  have "length (filter (\<lambda>y. f y = f x) xs) + length (filter (\<lambda>y. f y \<noteq> f x) xs) = length xs"
    using sum_length_filter_compl [of "\<lambda>y. f y = f x" xs] by simp
  with 2 show ?case by simp
qed

lemma value_counts_sorted_total:
  "(\<Sum>(size, n) \<leftarrow> value_counts_sorted xs. size * n) = sum_list xs"
proof -
  have "(\<Sum>(size, n) \<leftarrow> value_counts_sorted xs. size * n)
        = (\<Sum>k \<leftarrow> sort (remdups xs). k * count_list xs k)"
    by (simp add: value_counts_sorted_def comp_def)
  also have "\<dots> = (\<Sum>k \<in> set xs. k * count_list xs k)"
    by (subst sum_list_distinct_conv_sum_set) simp_all
  also have "\<dots> = sum_list (map (\<lambda>k. k) xs)"
    by (subst sum_list_map_eq_sum_count) (simp add: mult.commute)
  finally show ?thesis by simp
qed

lemma groupby_returns:
  "qi_cols \<noteq> [] \<Longrightarrow> set qi_cols \<subseteq> set (columns df) \<Longrightarrow>
   groupby df qi_cols = Inr (group_by (\<lambda>r. map r qi_cols) (rows df))"
  by (auto simp: groupby_def first_missing_def find_None_iff split: option.splits)

text \<open>
  C8. The size histogram of k-anonymity accounts for every row: whenever the QI columns
  are a non-empty list of columns of the dataset, \<^verbatim>\<open>k_anonymity\<close> returns a report, and the
  sum over the histogram entries of class size times number of classes of that size is
  the row count of the dataset.
\<close>

theorem k_anonymity_hist_partitions_rows:
  assumes "qi_cols \<noteq> []" and "set qi_cols \<subseteq> set (columns df)"
  shows "\<exists>rep. k_anonymity df qi_cols = Inr rep \<and>
           (\<Sum>(size, n) \<leftarrow> eq_class_size_hist rep. size * n) = length (rows df)"
  using assms
  by (simp add: k_anonymity_def groupby_returns Let_def value_counts_sorted_total group_by_sizes)

theorem k_anonymity_hist_partitions_rows_witness:
  "[''age_band'', ''zip''] \<noteq> [] \<and> set [''age_band'', ''zip''] \<subseteq> set (columns simple_df) \<and>
   (\<exists>rep. k_anonymity simple_df [''age_band'', ''zip''] = Inr rep \<and>
      (\<Sum>(size, n) \<leftarrow> eq_class_size_hist rep. size * n) = length (rows simple_df))"
  using k_anonymity_hist_partitions_rows [of "[''age_band'', ''zip'']" simple_df]
  by (simp add: simple_df_def)

section \<open>Properties of t-closeness\<close>










lemma apply_each_length: "apply_each f xs = Inr ys \<Longrightarrow> length ys = length xs"
  by (induction xs arbitrary: ys) (auto split: sum.splits)



lemma t_closeness_unfold:
  assumes "t_closeness df qi_cols sensitive_col numeric_bins binning_method t_method = Inr r"
  obtains s b f grp t_values where
    "get_column df sensitive_col = Inr s"
    "prepare_dist (dtypes df sensitive_col) s numeric_bins binning_method t_method = Inr (b, Some f)"
    "groupby_col df qi_cols sensitive_col = Inr grp"
    "apply_each f (map snd grp) = Inr t_values"
    "r = \<lparr> t_max = (if t_values \<noteq> [] then Max (set t_values) else 0),
            t_avg = (if t_values \<noteq> [] then mean t_values else 0),
            bins = b, t_rep_method = t_method \<rparr>"
proof -
  obtain s where s: "get_column df sensitive_col = Inr s"
    using assms by (cases "get_column df sensitive_col") (simp_all add: t_closeness_def)
  obtain b fo where p: "prepare_dist (dtypes df sensitive_col) s numeric_bins binning_method t_method = Inr (b, fo)"
    using assms s
    by (cases "prepare_dist (dtypes df sensitive_col) s numeric_bins binning_method t_method")
       (auto simp: t_closeness_def)
  obtain grp where g: "groupby_col df qi_cols sensitive_col = Inr grp"
    using assms s p by (cases "groupby_col df qi_cols sensitive_col") (simp_all add: t_closeness_def)
  obtain f where f: "fo = Some f"
    using assms s p g by (cases fo) (simp_all add: t_closeness_def)
  obtain t_values where t: "apply_each f (map snd grp) = Inr t_values"
    using assms s p g f by (cases "apply_each f (map snd grp)") (simp_all add: t_closeness_def)
  have "r = \<lparr> t_max = (if t_values \<noteq> [] then Max (set t_values) else 0),
              t_avg = (if t_values \<noteq> [] then mean t_values else 0),
              bins = b, t_rep_method = t_method \<rparr>"
    using assms s p g f t by (simp add: t_closeness_def)
  with s p g f t that show thesis by blast
qed





subsection \<open>Evaluation on the fixtures\<close>

lemma upt_small:
  "[0..<1] = [0]" "[0..<2] = [0, 1]" "[0..<3] = [0, 1, 2]" "[0..<4] = [0, 1, 2, 3]"
  "[0..<9] = [0, 1, 2, 3, 4, 5, 6, 7, 8]" "[0..<6] = [0, 1, 2, 3, 4, 5]"
  by (simp_all add: upt_rec)

lemma skewed_groups:
  "groupby_col skewed_df [''grp''] ''score'' =
     Inr [([Str ''a''], [Num 1, Num 1, Num 1]), ([Str ''b''], [Num 1, Num 5])]"
  by (simp add: groupby_col_def groupby_def first_missing_def skewed_df_def score_row_def mk_row_def)

lemma skewed_column:
  "get_column skewed_df ''score'' = Inr [Num 1, Num 1, Num 1, Num 1, Num 5]"
  by (simp add: get_column_def skewed_df_def score_row_def mk_row_def)

lemma skewed_dtype: "dtypes skewed_df ''score'' = IntD"
  by (simp add: skewed_df_def)

lemma skewed_fd_bins: "fd_bins [1, 1, 1, 1, 5] 2 = [1, 3, 5]"
  by (simp add: fd_bins_def np_percentile_def np_quantile_def histogram_bin_edges_def
      upt_small Let_def)

lemma skewed_histogram: "np_histogram [1, 1, 1, 1, 5] [1, 3, 5] = [4, 1]"
  by (simp add: np_histogram_def upt_rec [of 0] upt_rec [of 1] upt_rec [of 2])

lemma skewed_tvd_report: "t_closeness skewed_df [''grp''] ''score'' 2 ''fd'' ''tvd''
   = Inr \<lparr> t_max = 3 / 10, t_avg = 1 / 4, bins = Some [1, 3, 5], t_rep_method = ''tvd'' \<rparr>"
  by (simp add: t_closeness_def skewed_groups skewed_column prepare_dist_def skewed_dtype
        is_numeric_dtype_def skewed_fd_bins numeric_dist_func_def np_histogram_def
        normalise_def total_variation_distance_def mean_def upt_small Let_def)

lemma simple_income_column:
  "get_column simple_df ''income'' = Inr [Num 50, Num 60, Num 70, Num 80, Num 90]"
  by (simp add: get_column_def simple_df_def simple_row_def mk_row_def)

lemma simple_income_dtype: "dtypes simple_df ''income'' = IntD"
  by (simp add: simple_df_def)

lemma simple_income_groups:
  "groupby_col simple_df [''age_band'', ''zip''] ''income'' =
     Inr [([Str ''20-29'', Str ''12345''], [Num 50, Num 60]),
          ([Str ''30-39'', Str ''54321''], [Num 70, Num 80, Num 90])]"
  by (simp add: groupby_col_def groupby_def first_missing_def simple_df_def simple_row_def
      mk_row_def)




text \<open>
  C4, as stated: the bin edges are reported on the numeric path with the total variation
  distance only, and are absent for \<^verbatim>\<open>t_method="emd"\<close>. The source computes the edges before
  it looks at \<^verbatim>\<open>t_method\<close>: on the numeric fixture the report of the \<^verbatim>\<open>emd\<close> method carries
  the edges 1, 3, 5.
\<close>

theorem bins_reported_for_emd_counterexample: "t_closeness skewed_df [''grp''] ''score'' 2 ''fd'' ''emd''
   = Inr \<lparr> t_max = 6 / 5, t_avg = 1, bins = Some [1, 3, 5], t_rep_method = ''emd'' \<rparr>"
  by (simp add: t_closeness_def skewed_groups skewed_column prepare_dist_def skewed_dtype
        is_numeric_dtype_def skewed_fd_bins numeric_dist_func_def emd_distance_def
        wasserstein_distance_def ecdf_def mean_def upt_small Let_def)

text \<open>
  C4, amended: whenever \<^verbatim>\<open>t_closeness\<close> returns a report, its bin edges are present exactly
  when the sensitive column is numeric and has a non-missing value, for every
  \<^verbatim>\<open>t_method\<close>; they are absent for a categorical column and for a numeric column whose
  values are all missing.
\<close>

theorem bins_reported_iff_numeric_values:
  assumes "t_closeness df qi_cols sensitive_col numeric_bins binning_method t_method = Inr r"
  shows "bins r \<noteq> None \<longleftrightarrow>
           is_numeric_dtype (dtypes df sensitive_col)
           \<and> num_values (map (\<lambda>row. row sensitive_col) (rows df)) \<noteq> []"
proof -
  from assms obtain s b f grp t_values where
      s: "get_column df sensitive_col = Inr s"
    and p: "prepare_dist (dtypes df sensitive_col) s numeric_bins binning_method t_method = Inr (b, Some f)"
    and "groupby_col df qi_cols sensitive_col = Inr grp"
    and "apply_each f (map snd grp) = Inr t_values"
    and r: "r = \<lparr> t_max = (if t_values \<noteq> [] then Max (set t_values) else 0),
                  t_avg = (if t_values \<noteq> [] then mean t_values else 0),
                  bins = b, t_rep_method = t_method \<rparr>"
    by (rule t_closeness_unfold)
  from s have s': "s = map (\<lambda>row. row sensitive_col) (rows df)"
    by (simp add: get_column_def split: if_splits)
  from p have "b \<noteq> None \<longleftrightarrow> is_numeric_dtype (dtypes df sensitive_col) \<and> num_values s \<noteq> []"
    by (auto simp: prepare_dist_def Let_def split: if_splits sum.splits)
  with r s' show ?thesis by simp
qed

theorem bins_reported_iff_numeric_values_witness:
  "t_closeness skewed_df [''grp''] ''score'' 2 ''fd'' ''tvd''
     = Inr \<lparr> t_max = 3 / 10, t_avg = 1 / 4, bins = Some [1, 3, 5], t_rep_method = ''tvd'' \<rparr>
   \<and> (bins \<lparr> t_max = 3 / 10, t_avg = 1 / 4, bins = Some [1, 3, 5], t_rep_method = ''tvd'' \<rparr> \<noteq> None
        \<longleftrightarrow> is_numeric_dtype (dtypes skewed_df ''score'')
            \<and> num_values (map (\<lambda>row. row ''score'') (rows skewed_df)) \<noteq> [])"
  using bins_reported_iff_numeric_values [OF skewed_tvd_report] skewed_tvd_report
  by simp

text \<open>
  C2. With \<^verbatim>\<open>binning_method="quantile"\<close> the source sets \<^verbatim>\<open>bins\<close> and never binds
  \<^verbatim>\<open>dist_func\<close>, which only the other branch defines: for a numeric sensitive column with a
  non-missing value no report is returned at all.
\<close>

lemma t_closeness_quantile_never_returns:
  assumes "is_numeric_dtype (dtypes df sensitive_col)"
    and "num_values (map (\<lambda>row. row sensitive_col) (rows df)) \<noteq> []"
  shows "t_closeness df qi_cols sensitive_col numeric_bins ''quantile'' t_method \<noteq> Inr r"
proof
  assume "t_closeness df qi_cols sensitive_col numeric_bins ''quantile'' t_method = Inr r"
  then obtain s b f where
      s: "get_column df sensitive_col = Inr s"
    and p: "prepare_dist (dtypes df sensitive_col) s numeric_bins ''quantile'' t_method = Inr (b, Some f)"
    by (rule t_closeness_unfold)
  from s have "s = map (\<lambda>row. row sensitive_col) (rows df)"
    by (simp add: get_column_def split: if_splits)
  with p assms show False
    by (simp add: prepare_dist_def Let_def split: sum.splits)
qed

theorem t_closeness_quantile_unbound_dist_func:
  "t_closeness simple_df [''age_band'', ''zip''] ''income'' 3 ''quantile'' ''tvd''
     = Inl (UnboundLocalError ''dist_func'')"
  by (simp add: t_closeness_def simple_income_column simple_income_dtype simple_income_groups
      prepare_dist_def is_numeric_dtype_def linspace_def)

section \<open>Properties of l-diversity\<close>

lemma groupby_col_empty:
  assumes "rows df = []" "qi_cols \<noteq> []" "set qi_cols \<subseteq> set (columns df)"
    "sensitive_col \<in> set (columns df)"
  shows "groupby_col df qi_cols sensitive_col = Inr []"
proof -
  from assms(3) have "first_missing df qi_cols = None"
    by (auto simp: first_missing_def find_None_iff)
  with assms show ?thesis by (simp add: groupby_col_def groupby_def)
qed

lemma missing_key_groups:
  "groupby_col missing_key_df [''ward''] ''diagnosis'' =
     Inr [([NaN], [Str ''flu'']), ([Str ''b''], [Str ''flu'', Str ''hiv''])]"
  by (simp add: groupby_col_def groupby_def first_missing_def missing_key_df_def ward_row_def
      mk_row_def)

lemma entropy_of_even_pair: "safe_entropy [1 / 2, 1 / 2] = 1"
proof -
  have "log 2 (1 / 2) = - 1" by (simp add: log_divide)
  thus ?thesis by (simp add: safe_entropy_def)
qed

text \<open>
  C10. On a dataset with no row, whose columns include the QI columns and the sensitive
  column, the entropy method returns a report with \<open>entropy_min = entropy_avg = 0\<close>,
  \<open>entropy_effective_min = entropy_effective_avg = 1\<close> and \<open>l_min = l_avg = 0\<close>: every
  series is empty, each statistic takes its \<open>else 0.0\<close> branch, and \<open>2 ** 0.0\<close> is 1.
\<close>

theorem l_diversity_entropy_empty_dataset:
  assumes "rows df = []" "qi_cols \<noteq> []" "set qi_cols \<subseteq> set (columns df)"
    "sensitive_col \<in> set (columns df)"
  shows "l_diversity df qi_cols sensitive_col ''entropy'' =
           Inr \<lparr> l_rep_method = ''entropy'', l_min = 0, l_avg = 0,
                 entropy_min = Some 0, entropy_avg = Some 0,
                 entropy_effective_min = Some 1, entropy_effective_avg = Some 1 \<rparr>"
  using groupby_col_empty [OF assms]
  by (simp add: l_diversity_def regroup_by_level_def)

theorem l_diversity_entropy_empty_dataset_witness:
  "l_diversity empty_df [''ward''] ''diagnosis'' ''entropy'' =
     Inr \<lparr> l_rep_method = ''entropy'', l_min = 0, l_avg = 0,
           entropy_min = Some 0, entropy_avg = Some 0,
           entropy_effective_min = Some 1, entropy_effective_avg = Some 1 \<rparr>"
  using l_diversity_entropy_empty_dataset [of empty_df "[''ward'']" "''diagnosis''"]
  by (simp add: empty_df_def)

text \<open>
  C6. The effective diversity \<open>2 ** entropy\<close> is meant to stay below the distinct count of
  the same grouping. The distinct counts are taken over the classes of
  \<^verbatim>\<open>groupby(qi_cols, dropna=False)\<close>, but the entropies are taken after a second
  \<^verbatim>\<open>groupby(level=...)\<close> that keeps the default \<^verbatim>\<open>dropna=True\<close> and so loses every class
  whose key has a missing component. With the rows (missing, flu), (b, flu), (b, hiv) the
  class of the missing key has one distinct value, so \<open>l_min = 1\<close> and \<open>l_avg = 3/2\<close>,
  while only the class b, of entropy 1, enters the entropies: both effective values are 2.
\<close>

theorem effective_diversity_exceeds_distinct_on_missing_key:
  "l_diversity missing_key_df [''ward''] ''diagnosis'' ''entropy'' =
     Inr \<lparr> l_rep_method = ''entropy'', l_min = 1, l_avg = 3 / 2,
           entropy_min = Some 1, entropy_avg = Some 1,
           entropy_effective_min = Some 2, entropy_effective_avg = Some 2 \<rparr>"
  by (simp add: l_diversity_def missing_key_groups regroup_by_level_def nunique_keepna_def
      value_shares_keepna_def entropy_of_even_pair mean_def Let_def)

section \<open>Properties of the linkage attack\<close>

lemma group_by_length: "length (group_by f xs) = card (f ` set xs)"
proof (induction f xs rule: group_by.induct)
  case (1 f)
  show ?case by simp
next
  case (2 f x xs)
  have "f ` set (x # xs) = insert (f x) (f ` set (filter (\<lambda>y. f y \<noteq> f x) xs))"
    by auto
  moreover have "f x \<notin> f ` set (filter (\<lambda>y. f y \<noteq> f x) xs)"
    by auto
  ultimately have "card (f ` set (x # xs)) = Suc (card (f ` set (filter (\<lambda>y. f y \<noteq> f x) xs)))"
    by simp
  with 2 show ?case by simp
qed

lemma count_trichotomy:
  "length (filter (\<lambda>(g, c). c = 1) cs) + length (filter (\<lambda>(g, c). c > 1) cs)
     + length (filter (\<lambda>(g, c). c = 0) cs) = length (cs :: ('a \<times> nat) list)"
  by (induction cs) auto

lemma merged_left_rows:
  assumes "merge_left_indicator left right keys = Inr merged"
  shows "fst ` set merged = set (rows left)"
proof -
  from assms have m: "merged = concat (map (\<lambda>a.
                      let matches = filter (\<lambda>r. map r keys = map a keys) (rows right)
                      in if matches = [] then [(a, False)] else map (\<lambda>r. (a, True)) matches)
                    (rows left))"
    by (simp add: merge_left_indicator_def split: if_splits option.splits)
  show ?thesis
  proof (rule set_eqI)
    fix a
    show "a \<in> fst ` set merged \<longleftrightarrow> a \<in> set (rows left)"
    proof
      assume "a \<in> fst ` set merged"
      then show "a \<in> set (rows left)"
        unfolding m by (auto simp: Let_def split: if_splits)
    next
      assume a: "a \<in> set (rows left)"
      let ?ms = "filter (\<lambda>r. map r keys = map a keys) (rows right)"
      show "a \<in> fst ` set merged"
      proof (cases "?ms = []")
        case True
        with a have "(a, False) \<in> set merged" unfolding m by (auto simp: Let_def)
        then show ?thesis by force
      next
        case False
        then obtain r rs where ms: "?ms = r # rs" by (meson neq_Nil_conv)
        have "r \<in> set ?ms" unfolding ms by simp
        with a False have "(a, True) \<in> set merged"
          unfolding m by (auto simp: Let_def intro!: bexI [of _ a])
        then show ?thesis by force
      qed
    qed
  qed
qed

lemma map_enumerate_index: "map (\<lambda>p. g (fst p)) (enumerate 0 xs) = map g [0..<length xs]"
proof -
  have "map (g \<circ> fst) (enumerate 0 xs) = map g (map fst (enumerate 0 xs))"
    by (simp only: map_map)
  also have "\<dots> = map g [0..<length xs]"
    by (simp only: map_fst_enumerate add_0)
  finally show ?thesis by (simp only: comp_def)
qed

lemma fresh_identifiers:
  assumes "''index'' \<notin> set (columns aux_df)" "reset_index aux_df = Inr indexed"
  shows "map (\<lambda>a. a ''__aux_id__'') (rows (rename_column ''index'' ''__aux_id__'' indexed))
           = map (\<lambda>i. Num (real i)) [0..<length (rows aux_df)]"
    and "length (rows (rename_column ''index'' ''__aux_id__'' indexed)) = length (rows aux_df)"
proof -
  from assms have i: "indexed = \<lparr> columns = ''index'' # columns aux_df,
                    dtypes = (dtypes aux_df)(''index'' := IntD),
                    rows = map (\<lambda>(i, r). r(''index'' := Num (real i))) (enumerate 0 (rows aux_df)) \<rparr>"
    by (simp add: reset_index_def Let_def split: if_splits)
  show "map (\<lambda>a. a ''__aux_id__'') (rows (rename_column ''index'' ''__aux_id__'' indexed))
           = map (\<lambda>i. Num (real i)) [0..<length (rows aux_df)]"
    unfolding i
    by (simp add: rename_column_def comp_def case_prod_unfold)
      (rule map_enumerate_index)
  show "length (rows (rename_column ''index'' ''__aux_id__'' indexed)) = length (rows aux_df)"
    unfolding i by (simp add: rename_column_def)
qed


lemma linkage_unfold:
  assumes "simulate_linkage_attack anonymised_df aux_df qi_cols = Inr r"
  obtains indexed merged hit where
    "reset_index aux_df = Inr indexed"
    "merge_left_indicator (rename_column ''index'' ''__aux_id__'' indexed) anonymised_df qi_cols
       = Inr merged"
    "r = (let aux = rename_column ''index'' ''__aux_id__'' indexed;
              by_id = group_by (\<lambda>(a, both). a ''__aux_id__'')
                          (filter (\<lambda>(a, both). \<not> isna (a ''__aux_id__'')) merged);
              counts = map (\<lambda>(g, ms). (g, length (filter snd ms))) by_id;
              unique' = length (filter (\<lambda>(g, c). c = 1) counts);
              multiple' = length (filter (\<lambda>(g, c). c > 1) counts);
              none' = length (filter (\<lambda>(g, c). c = 0) counts)
          in \<lparr> unique = unique', multiple = multiple', none = none',
               flagged = map (to_record (filter (\<lambda>c. c \<noteq> ''__aux_id__'') (columns aux))) hit,
               records_tested = length (rows aux),
               reid_probability =
                 (if length (rows aux) \<noteq> 0
                  then real unique' / real (length (rows aux)) else 0) \<rparr>)"
proof -
  from assms obtain indexed where i: "reset_index aux_df = Inr indexed"
    by (cases "reset_index aux_df") (simp_all add: simulate_linkage_attack_def)
  let ?aux = "rename_column ''index'' ''__aux_id__'' indexed"
  from assms i obtain merged where m: "merge_left_indicator ?aux anonymised_df qi_cols = Inr merged"
    by (cases "merge_left_indicator ?aux anonymised_df qi_cols")
      (simp_all add: simulate_linkage_attack_def Let_def)
  let ?counts = "map (\<lambda>(g, ms). (g, length (filter snd ms)))
                   (group_by (\<lambda>(a, both). a ''__aux_id__'')
                          (filter (\<lambda>(a, both). \<not> isna (a ''__aux_id__'')) merged))"
  from assms i m obtain hit where
    h: "apply_each (loc_row ?aux) (map fst (filter (\<lambda>(g, c). c = 1) ?counts)) = Inr hit"
    by (cases "apply_each (loc_row ?aux) (map fst (filter (\<lambda>(g, c). c = 1) ?counts))")
      (simp_all add: simulate_linkage_attack_def Let_def split: if_splits)
  from assms i m h have "r = (let aux = rename_column ''index'' ''__aux_id__'' indexed;
              by_id = group_by (\<lambda>(a, both). a ''__aux_id__'')
                          (filter (\<lambda>(a, both). \<not> isna (a ''__aux_id__'')) merged);
              counts = map (\<lambda>(g, ms). (g, length (filter snd ms))) by_id;
              unique' = length (filter (\<lambda>(g, c). c = 1) counts);
              multiple' = length (filter (\<lambda>(g, c). c > 1) counts);
              none' = length (filter (\<lambda>(g, c). c = 0) counts)
          in \<lparr> unique = unique', multiple = multiple', none = none',
               flagged = map (to_record (filter (\<lambda>c. c \<noteq> ''__aux_id__'') (columns aux))) hit,
               records_tested = length (rows aux),
               reid_probability =
                 (if length (rows aux) \<noteq> 0
                  then real unique' / real (length (rows aux)) else 0) \<rparr>)"
    by (simp add: simulate_linkage_attack_def Let_def split: if_splits)
  with i m show thesis by (rule that)
qed

lemma linkage_counts_without_index_column:
  assumes "''index'' \<notin> set (columns aux_df)"
    and "simulate_linkage_attack anonymised_df aux_df qi_cols = Inr r"
  shows "unique r + multiple r + none r = records_tested r"
    and "records_tested r = length (rows aux_df)"
    and "reid_probability r =
           (if records_tested r > 0 then real (unique r) / real (records_tested r) else 0)"
    and "0 \<le> reid_probability r" and "reid_probability r \<le> 1"
proof -
  from assms(2) obtain indexed merged hit where
    i: "reset_index aux_df = Inr indexed" and
    m: "merge_left_indicator (rename_column ''index'' ''__aux_id__'' indexed) anonymised_df qi_cols
       = Inr merged" and
    r: "r = (let aux = rename_column ''index'' ''__aux_id__'' indexed;
              by_id = group_by (\<lambda>(a, both). a ''__aux_id__'')
                          (filter (\<lambda>(a, both). \<not> isna (a ''__aux_id__'')) merged);
              counts = map (\<lambda>(g, ms). (g, length (filter snd ms))) by_id;
              unique' = length (filter (\<lambda>(g, c). c = 1) counts);
              multiple' = length (filter (\<lambda>(g, c). c > 1) counts);
              none' = length (filter (\<lambda>(g, c). c = 0) counts)
          in \<lparr> unique = unique', multiple = multiple', none = none',
               flagged = map (to_record (filter (\<lambda>c. c \<noteq> ''__aux_id__'') (columns aux))) hit,
               records_tested = length (rows aux),
               reid_probability =
                 (if length (rows aux) \<noteq> 0
                  then real unique' / real (length (rows aux)) else 0) \<rparr>)"
    by (rule linkage_unfold)
  let ?aux = "rename_column ''index'' ''__aux_id__'' indexed"
  let ?n = "length (rows aux_df)"
  let ?kept = "filter (\<lambda>(a, both). \<not> isna (a ''__aux_id__'')) merged"
  let ?by_id = "group_by (\<lambda>(a, both). a ''__aux_id__'') ?kept"
  let ?counts = "map (\<lambda>(g, ms). (g, length (filter snd ms))) ?by_id"
  have ids: "map (\<lambda>a. a ''__aux_id__'') (rows ?aux) = map (\<lambda>i. Num (real i)) [0..<?n]"
    and len: "length (rows ?aux) = ?n"
    by (rule fresh_identifiers [OF assms(1) i])+
  from len have empty: "rows ?aux = [] \<longleftrightarrow> rows aux_df = []"
    by (simp only: length_0_conv [symmetric])
  have rows_ids: "(\<lambda>a. a ''__aux_id__'') ` set (rows ?aux) = (\<lambda>i. Num (real i)) ` {0..<?n}"
  proof -
    have "(\<lambda>a. a ''__aux_id__'') ` set (rows ?aux) = set (map (\<lambda>a. a ''__aux_id__'') (rows ?aux))"
      by simp
    also have "\<dots> = set (map (\<lambda>i. Num (real i)) [0..<?n])" by (simp only: ids)
    finally show ?thesis by simp
  qed
  have left: "fst ` set merged = set (rows ?aux)" by (rule merged_left_rows [OF m])
  have no_missing: "\<not> isna (a ''__aux_id__'')" if "(a, b) \<in> set merged" for a b
  proof -
    from that left have "a \<in> set (rows ?aux)" by force
    then have "a ''__aux_id__'' \<in> (\<lambda>i. Num (real i)) ` {0..<?n}" using rows_ids by blast
    then show ?thesis by (auto simp: isna_def)
  qed
  then have kept: "?kept = merged" by (auto simp: filter_id_conv)
  have "(\<lambda>(a, both). a ''__aux_id__'') ` set merged = (\<lambda>a. a ''__aux_id__'') ` (fst ` set merged)"
    by force
  also have "\<dots> = (\<lambda>i. Num (real i)) ` {0..<?n}" by (simp only: left rows_ids)
  finally have img: "(\<lambda>(a, both). a ''__aux_id__'') ` set merged = (\<lambda>i. Num (real i)) ` {0..<?n}" .
  have "inj_on (\<lambda>i. Num (real i)) {0..<?n}" by (rule inj_onI) simp
  then have "card ((\<lambda>i. Num (real i)) ` {0..<?n}) = ?n" by (simp add: card_image)
  with img kept have "length ?by_id = ?n" by (simp add: group_by_length)
  then have n_counts: "length ?counts = ?n" by simp
  have tri: "length (filter (\<lambda>(g, c). c = 1) ?counts) + length (filter (\<lambda>(g, c). c > 1) ?counts)
     + length (filter (\<lambda>(g, c). c = 0) ?counts) = ?n"
    using count_trichotomy [of ?counts] n_counts by simp
  have u: "unique r = length (filter (\<lambda>(g, c). c = 1) ?counts)"
    and mu: "multiple r = length (filter (\<lambda>(g, c). c > 1) ?counts)"
    and no: "none r = length (filter (\<lambda>(g, c). c = 0) ?counts)"
    and rt: "records_tested r = ?n"
    and rp: "reid_probability r = (if ?n \<noteq> 0 then real (unique r) / real ?n else 0)"
    unfolding r by (simp_all add: Let_def len empty)
  show "unique r + multiple r + none r = records_tested r"
    using tri by (simp only: u mu no rt)
  show "records_tested r = ?n" by (rule rt)
  show "reid_probability r =
           (if records_tested r > 0 then real (unique r) / real (records_tested r) else 0)"
    by (simp add: rp rt)
  have "unique r \<le> ?n" using tri by (simp only: u)
  then show "0 \<le> reid_probability r" and "reid_probability r \<le> 1"
    by (simp_all add: rp)
qed

text \<open>
  A requested key that the auxiliary frame lacks stops the attack in the merge, unless it
  has the name of a column that the two first calls add; an auxiliary frame without rows
  stops it at the comparison of the counts.
\<close>

lemma renamed_columns_lack:
  assumes "reset_index aux_df = Inr indexed"
    and "c \<notin> set (columns aux_df)" "c \<noteq> ''__aux_id__''" "c \<noteq> ''level_0''"
  shows "c \<notin> set (columns (rename_column ''index'' ''__aux_id__'' indexed))"
proof -
  from assms(1) have "columns indexed =
      (if ''index'' \<in> set (columns aux_df) then ''level_0'' else ''index'') # columns aux_df"
    by (auto simp: reset_index_def Let_def split: if_splits)
  with assms(2-4) show ?thesis
    by (auto simp: rename_column_def split: if_splits)
qed

lemma linkage_fails_on_missing_key:
  assumes "c \<in> set qi_cols" "c \<notin> set (columns aux_df)" "c \<noteq> ''__aux_id__''" "c \<noteq> ''level_0''"
  shows "\<exists>e. simulate_linkage_attack anonymised_df aux_df qi_cols = Inl e"
proof (cases "reset_index aux_df")
  case (Inl e)
  then show ?thesis by (simp add: simulate_linkage_attack_def)
next
  case (Inr indexed)
  let ?aux = "rename_column ''index'' ''__aux_id__'' indexed"
  have "c \<notin> set (columns ?aux)" by (rule renamed_columns_lack [OF Inr assms(2-4)])
  with assms(1) have "\<exists>k \<in> set qi_cols. k \<notin> set (columns anonymised_df) \<or> k \<notin> set (columns ?aux)"
    by blast
  then obtain k where
    "find (\<lambda>c. c \<notin> set (columns anonymised_df) \<or> c \<notin> set (columns ?aux)) qi_cols = Some k"
    by (cases "find (\<lambda>c. c \<notin> set (columns anonymised_df) \<or> c \<notin> set (columns ?aux)) qi_cols")
      (auto simp: find_None_iff)
  moreover from assms(1) have "qi_cols \<noteq> []" by auto
  ultimately have "merge_left_indicator ?aux anonymised_df qi_cols = Inl (KeyError k)"
    by (simp add: merge_left_indicator_def)
  with Inr show ?thesis by (simp add: simulate_linkage_attack_def Let_def)
qed

lemma linkage_needs_rows:
  assumes "rows aux_df = []"
  shows "\<exists>e. simulate_linkage_attack anonymised_df aux_df qi_cols = Inl e"
proof (cases "reset_index aux_df")
  case (Inl e)
  then show ?thesis by (simp add: simulate_linkage_attack_def)
next
  case (Inr indexed)
  with assms have "rows (rename_column ''index'' ''__aux_id__'' indexed) = []"
    by (auto simp: reset_index_def rename_column_def Let_def split: if_splits)
  then have m: "merge_left_indicator (rename_column ''index'' ''__aux_id__'' indexed)
     anonymised_df qi_cols = Inr merged \<Longrightarrow> merged = []" for merged
    by (auto simp: merge_left_indicator_def split: if_splits option.splits)
  show ?thesis
  proof (cases "merge_left_indicator (rename_column ''index'' ''__aux_id__'' indexed)
     anonymised_df qi_cols")
    case (Inl e)
    with Inr show ?thesis by (simp add: simulate_linkage_attack_def Let_def)
  next
    case (Inr merged)
    with m have "merged = []" by simp
    with Inr \<open>reset_index aux_df = Inr indexed\<close> show ?thesis
      by (simp add: simulate_linkage_attack_def Let_def)
  qed
qed

text \<open>On the frames of the test of the linkage attack no auxiliary row has a single match.\<close>

lemma linkage_on_test_frames:
  "simulate_linkage_attack simple_df test_aux [''age_band'', ''zip''] =
     Inr \<lparr> unique = 0, multiple = 3, none = 1, flagged = [], records_tested = 4,
           reid_probability = 0 \<rparr>"
  by (simp add: simulate_linkage_attack_def reset_index_def rename_column_def
      merge_left_indicator_def test_aux_def simple_df_def simple_row_def mk_row_def
      is_numeric_dtype_def isna_def Let_def enumerate_eq_zip upt_small)

text \<open>
  C5. The three counts are meant to add up to the number of auxiliary rows. The source
  tags every auxiliary row with its position by \<^verbatim>\<open>reset_index\<close> and renames the column
  \<^verbatim>\<open>index\<close> to \<^verbatim>\<open>__aux_id__\<close>. When the auxiliary frame already has a column \<^verbatim>\<open>index\<close>, the
  positions go to a column \<^verbatim>\<open>level_0\<close> and the renaming turns the column of the caller
  into the identifier: rows that share a value there are counted as one record. With two
  auxiliary rows of index 7, each matching one anonymised row, the result has
  \<open>records_tested = 2\<close> and the counts 0, 1 and 0. For an auxiliary frame without a
  column \<^verbatim>\<open>index\<close> the counts do add up (lemma \<open>linkage_counts_without_index_column\<close>).
\<close>

theorem linkage_counts_miss_rows_on_index_column:
  "simulate_linkage_attack zip_only_df household_aux [''zip''] =
     Inr \<lparr> unique = 0, multiple = 1, none = 0, flagged = [], records_tested = 2,
           reid_probability = 0 \<rparr>"
  by (simp add: simulate_linkage_attack_def reset_index_def rename_column_def
      merge_left_indicator_def household_aux_def zip_only_df_def household_row_def mk_row_def
      is_numeric_dtype_def isna_def Let_def enumerate_eq_zip upt_small)

section \<open>Properties of the full report\<close>

subsection \<open>Failing analyzers\<close>

lemma gap_t_closeness:
  "t_closeness gap_df [''grp''] ''score'' 15 ''fd'' ''emd''
     = Inl (ValueError ''Distribution cannot be empty.'')"
proof -
  have g: "groupby_col gap_df [''grp''] ''score'' =
     Inr [([Str ''a''], [NaN]), ([Str ''b''], [Num 1, Num 5])]"
    by (simp add: groupby_col_def groupby_def first_missing_def gap_df_def score_row_def mk_row_def)
  have c: "get_column gap_df ''score'' = Inr [NaN, Num 1, Num 5]"
    by (simp add: get_column_def gap_df_def score_row_def mk_row_def)
  have d: "dtypes gap_df ''score'' = FloatD" by (simp add: gap_df_def)
  show ?thesis
    by (simp add: t_closeness_def g c d prepare_dist_def is_numeric_dtype_def Let_def
        numeric_dist_func_def emd_distance_def wasserstein_distance_def)
qed

lemma gap_suggest:
  "suggest_thresholds gap_df [''grp''] ''score'' =
     Inr \<lparr> suggested_k = 5, suggested_l = 2, suggested_t = 2 / 10,
           suggested_reid_probability = 1 / 10 \<rparr>"
  by (simp add: suggest_thresholds_def get_column_def gap_df_def score_row_def mk_row_def
      is_numeric_dtype_def dropna_def isna_def Let_def)

lemma gap_k: "k_anonymity gap_df [''grp''] =
   Inr \<lparr> k_min = 1, k_avg = 3 / 2, eq_class_size_hist = [(1, 1), (2, 1)] \<rparr>"
  by (simp add: k_anonymity_def groupby_def first_missing_def gap_df_def score_row_def mk_row_def
      value_counts_sorted_def mean_def Let_def)

lemma gap_l: "l_diversity gap_df [''grp''] ''score'' ''distinct'' =
   Inr \<lparr> l_rep_method = ''distinct'', l_min = 1, l_avg = 3 / 2,
         entropy_min = None, entropy_avg = None,
         entropy_effective_min = None, entropy_effective_avg = None \<rparr>"
  by (simp add: l_diversity_def groupby_col_def groupby_def first_missing_def gap_df_def
      score_row_def mk_row_def nunique_keepna_def mean_def Let_def)

lemma k_anonymity_fails_with_groupby:
  "k_anonymity df qi_cols = Inl e \<Longrightarrow> groupby df qi_cols = Inl e"
  by (cases "groupby df qi_cols") (simp_all add: k_anonymity_def Let_def)

lemma assemble_report_needs_groupby:
  assumes "groupby df (p_qi p) = Inl e"
  shows "\<exists>e'. assemble_report assoc df p external_df suggested krep lrep trep = Inl e'"
  using assms
  by (simp add: assemble_report_def split: sum.splits prod.splits)

lemma no_report_when_k_anonymity_raises:
  assumes "k_anonymity (self_df w) (p_qi p) = Inl e"
  shows "\<exists>e'. fst (full_report assoc p external_df w) = Inl e'"
proof (cases "suggest_thresholds (self_df w) (p_qi p) (p_sensitive p)")
  case (Inl e0)
  then show ?thesis by (simp add: full_report_def Let_def)
next
  case (Inr suggested)
  from assms have "groupby (self_df w) (p_qi p) = Inl e" by (rule k_anonymity_fails_with_groupby)
  from assemble_report_needs_groupby [OF this] Inr show ?thesis
    by (simp add: full_report_def Let_def)
qed

lemma assemble_report_needs_flags:
  assumes "k_flag (p_k_required p) krep (p_qi p) = Inl e
         \<or> l_flag (p_l_required p) (p_l_method p) lrep = Inl e
         \<or> t_flag (p_t_required p) trep = Inl e"
  shows "\<exists>e'. assemble_report assoc df p external_df suggested krep lrep trep = Inl e'"
proof (cases "k_flag (p_k_required p) krep (p_qi p)")
  case (Inl a)
  then show ?thesis by (simp add: assemble_report_def)
next
  case k: (Inr k_flags)
  show ?thesis
  proof (cases "l_flag (p_l_required p) (p_l_method p) lrep")
    case (Inl a)
    with k show ?thesis by (simp add: assemble_report_def)
  next
    case l: (Inr l_flags)
    from assms k l have "t_flag (p_t_required p) trep = Inl e" by simp
    with k l show ?thesis by (simp add: assemble_report_def)
  qed
qed

lemma unbound_report_variable:
  "k_required \<noteq> None \<Longrightarrow> k_flag k_required None qi_cols = Inl (UnboundLocalError ''krep'')"
  "l_required \<noteq> None \<Longrightarrow> l_flag l_required l_method None = Inl (UnboundLocalError ''lrep'')"
  "t_required \<noteq> None \<Longrightarrow> t_flag t_required None = Inl (UnboundLocalError ''trep'')"
  by (auto simp: k_flag_def l_flag_def t_flag_def)

lemma no_report_when_threshold_reads_failed_analyzer:
  assumes "(p_k_required p \<noteq> None \<and> k_anonymity (self_df w) (p_qi p) = Inl e)
       \<or> (p_l_required p \<noteq> None \<and>
            l_diversity (self_df w) (p_qi p) (p_sensitive p) (p_l_method p) = Inl e)
       \<or> (p_t_required p \<noteq> None \<and>
            t_closeness (self_df w) (p_qi p) (p_sensitive p) (p_numeric_bins p)
              (p_binning_method p) (p_t_method p) = Inl e)"
  shows "\<exists>e'. fst (full_report assoc p external_df w) = Inl e'"
proof (cases "suggest_thresholds (self_df w) (p_qi p) (p_sensitive p)")
  case (Inl e0)
  then show ?thesis by (simp add: full_report_def Let_def)
next
  case (Inr suggested)
  let ?k = "bound (k_anonymity (self_df w) (p_qi p))"
  let ?l = "bound (l_diversity (self_df w) (p_qi p) (p_sensitive p) (p_l_method p))"
  let ?t = "bound (t_closeness (self_df w) (p_qi p) (p_sensitive p) (p_numeric_bins p)
              (p_binning_method p) (p_t_method p))"
  from assms have "k_flag (p_k_required p) ?k (p_qi p) = Inl (UnboundLocalError ''krep'')
         \<or> l_flag (p_l_required p) (p_l_method p) ?l = Inl (UnboundLocalError ''lrep'')
         \<or> t_flag (p_t_required p) ?t = Inl (UnboundLocalError ''trep'')"
    by (auto simp: bound_def unbound_report_variable)
  then obtain e0 where "k_flag (p_k_required p) ?k (p_qi p) = Inl e0
         \<or> l_flag (p_l_required p) (p_l_method p) ?l = Inl e0
         \<or> t_flag (p_t_required p) ?t = Inl e0"
    by blast
  from assemble_report_needs_flags [OF this] Inr show ?thesis
    by (simp add: full_report_def Let_def)
qed

lemma report_with_placeholders_without_thresholds:
  assumes "p_qi p \<noteq> []" "set (p_qi p) \<subseteq> set (columns (self_df w))"
    and "p_sensitive p \<in> set (columns (self_df w))"
    and "p_k_required p = None" "p_l_required p = None" "p_t_required p = None"
  shows "\<exists>rep. fst (full_report assoc p None w) = Inr rep
           \<and> k_anonymity_of rep = bound (k_anonymity (self_df w) (p_qi p))
           \<and> l_diversity_of rep =
               bound (l_diversity (self_df w) (p_qi p) (p_sensitive p) (p_l_method p))
           \<and> t_closeness_of rep =
               bound (t_closeness (self_df w) (p_qi p) (p_sensitive p) (p_numeric_bins p)
                        (p_binning_method p) (p_t_method p))"
proof -
  from assms(3) obtain suggested where
    s: "suggest_thresholds (self_df w) (p_qi p) (p_sensitive p) = Inr suggested"
    by (simp add: suggest_thresholds_def get_column_def Let_def)
  have g: "groupby (self_df w) (p_qi p) = Inr (group_by (\<lambda>r. map r (p_qi p)) (rows (self_df w)))"
    using assms(1,2) by (rule groupby_returns)
  show ?thesis
    using assms(4-6)
    by (simp add: full_report_def s g Let_def assemble_report_def k_flag_def l_flag_def
        t_flag_def attack_simulation_step_def split: prod.splits)
qed

text \<open>
  C1. A report is meant to be returned whichever analyzer raises, also when thresholds
  are supplied. The handler of each analyzer fills the placeholder dictionary but leaves
  \<^verbatim>\<open>krep\<close>, \<^verbatim>\<open>lrep\<close> or \<^verbatim>\<open>trep\<close> unbound, and the risk flags read that variable as soon as
  the threshold of the analyzer is given. On a frame with a class that has no sensitive
  value, the \<^verbatim>\<open>emd\<close> distance raises inside \<^verbatim>\<open>t_closeness\<close>; k-anonymity and l-diversity
  are computed and logged; with \<open>t_required = 0.2\<close> the call then raises
  \<^verbatim>\<open>UnboundLocalError\<close> and no report is returned. The same holds for every analyzer
  whose threshold is supplied (lemma \<open>no_report_when_threshold_reads_failed_analyzer\<close>),
  and a failure of k-anonymity never leaves a report, as line 407 repeats its \<^verbatim>\<open>groupby\<close>
  (lemma \<open>no_report_when_k_anonymity_raises\<close>). Without thresholds, a failure of
  l-diversity or t-closeness does leave a report with the placeholder (lemma
  \<open>report_with_placeholders_without_thresholds\<close>).
\<close>

theorem full_report_unbound_after_failed_analyzer:
  "full_report no_association emd_params None (fresh_world gap_df) =
     (Inl (UnboundLocalError ''trep''),
      \<lparr> self_df = gap_df,
        log_txt = [LogQI [''grp''], LogSensitive ''score'',
                   LogK (Inr \<lparr> k_min = 1, k_avg = 3 / 2, eq_class_size_hist = [(1, 1), (2, 1)] \<rparr>),
                   LogL (Inr \<lparr> l_rep_method = ''distinct'', l_min = 1, l_avg = 3 / 2,
                               entropy_min = None, entropy_avg = None,
                               entropy_effective_min = None, entropy_effective_avg = None \<rparr>),
                   LogT (Inl (ValueError ''Distribution cannot be empty.''))],
        log_writable = True \<rparr>)"
  by (simp add: full_report_def fresh_world_def emd_params_def gap_suggest gap_k gap_l
      gap_t_closeness write_log_def assemble_report_def bound_def k_flag_def l_flag_def
      t_flag_def Let_def)

subsection \<open>Missing columns\<close>

lemma skewed_suggest:
  "suggest_thresholds skewed_df [''grp''] ''score'' =
     Inr \<lparr> suggested_k = 5, suggested_l = 2, suggested_t = 2 / 10,
           suggested_reid_probability = 1 / 10 \<rparr>"
  by (simp add: suggest_thresholds_def skewed_column skewed_dtype
      is_numeric_dtype_def dropna_def isna_def Let_def) (simp add: skewed_df_def)

lemma skewed_k: "k_anonymity skewed_df [''grp''] =
   Inr \<lparr> k_min = 2, k_avg = 5 / 2, eq_class_size_hist = [(2, 1), (3, 1)] \<rparr>"
  by (simp add: k_anonymity_def groupby_def first_missing_def skewed_df_def score_row_def mk_row_def
      value_counts_sorted_def mean_def Let_def)

lemma skewed_l: "l_diversity skewed_df [''grp''] ''score'' ''distinct'' =
   Inr \<lparr> l_rep_method = ''distinct'', l_min = 1, l_avg = 3 / 2,
         entropy_min = None, entropy_avg = None,
         entropy_effective_min = None, entropy_effective_avg = None \<rparr>"
  by (simp add: l_diversity_def skewed_groups nunique_keepna_def mean_def Let_def)

lemma scores_only_linkage:
  "simulate_linkage_attack skewed_df scores_only_df [''grp''] = Inl (KeyError ''grp'')"
  by (simp add: simulate_linkage_attack_def reset_index_def rename_column_def
      merge_left_indicator_def scores_only_df_def skewed_df_def Let_def)

text \<open>
  C3, as stated: a call with an external dataset that lacks a QI column fails before any
  metric is computed. \<^verbatim>\<open>full_report\<close> itself checks no column: on the numeric fixture with
  an external frame that has no column \<^verbatim>\<open>grp\<close>, the three metrics are computed and written
  to the log, and only then does the merge of the linkage attack raise \<^verbatim>\<open>KeyError\<close>.
\<close>

theorem metrics_computed_before_external_columns_fail:
  "full_report no_association skewed_params (Some scores_only_df) (fresh_world skewed_df) =
     (Inl (KeyError ''grp''),
      \<lparr> self_df = skewed_df,
        log_txt = [LogQI [''grp''], LogSensitive ''score'',
                   LogK (Inr \<lparr> k_min = 2, k_avg = 5 / 2, eq_class_size_hist = [(2, 1), (3, 1)] \<rparr>),
                   LogL (Inr \<lparr> l_rep_method = ''distinct'', l_min = 1, l_avg = 3 / 2,
                               entropy_min = None, entropy_avg = None,
                               entropy_effective_min = None, entropy_effective_avg = None \<rparr>),
                   LogT (Inr \<lparr> t_max = 3 / 10, t_avg = 1 / 4, bins = Some [1, 3, 5],
                               t_rep_method = ''tvd'' \<rparr>)],
        log_writable = True \<rparr>)"
  by (simp add: full_report_def fresh_world_def skewed_params_def skewed_suggest skewed_k skewed_l
      skewed_tvd_report write_log_def assemble_report_def bound_def k_flag_def l_flag_def
      t_flag_def attack_simulation_step_def scores_only_linkage Let_def)

lemma assemble_report_needs_attack:
  assumes "attack_simulation_step df external_df (p_qi p) (p_reid_required p) = Inl e"
  shows "\<exists>e'. assemble_report assoc df p external_df suggested krep lrep trep = Inl e'"
  using assms
  by (simp add: assemble_report_def split: sum.splits prod.splits)

lemma groupby_fails_on_missing_column:
  assumes "\<not> set qi_cols \<subseteq> set (columns df)"
  shows "\<exists>e. groupby df qi_cols = Inl e"
proof -
  from assms obtain c where "first_missing df qi_cols = Some c"
    by (cases "first_missing df qi_cols") (auto simp: first_missing_def find_None_iff)
  then show ?thesis by (simp add: groupby_def)
qed

lemma full_report_fails_after_analyzers:
  assumes "p_sensitive p \<in> set (columns (self_df w))"
    and "\<not> set (p_qi p) \<subseteq> set (columns (self_df w))
         \<or> (\<exists>aux c. external_df = Some aux \<and> c \<in> set (p_qi p) \<and> c \<notin> set (columns aux)
                     \<and> c \<noteq> ''__aux_id__'' \<and> c \<noteq> ''level_0'')"
  shows "\<exists>e. full_report assoc p external_df w =
           (Inl e,
            write_log [LogQI (p_qi p), LogSensitive (p_sensitive p),
                       LogK (k_anonymity (self_df w) (p_qi p)),
                       LogL (l_diversity (self_df w) (p_qi p) (p_sensitive p) (p_l_method p)),
                       LogT (t_closeness (self_df w) (p_qi p) (p_sensitive p) (p_numeric_bins p)
                               (p_binning_method p) (p_t_method p))] w)"
proof -
  from assms(1) obtain suggested where
    s: "suggest_thresholds (self_df w) (p_qi p) (p_sensitive p) = Inr suggested"
    by (simp add: suggest_thresholds_def get_column_def Let_def)
  let ?k = "bound (k_anonymity (self_df w) (p_qi p))"
  let ?l = "bound (l_diversity (self_df w) (p_qi p) (p_sensitive p) (p_l_method p))"
  let ?t = "bound (t_closeness (self_df w) (p_qi p) (p_sensitive p) (p_numeric_bins p)
              (p_binning_method p) (p_t_method p))"
  have "\<exists>e. assemble_report assoc (self_df w) p external_df suggested ?k ?l ?t = Inl e"
  proof (cases "set (p_qi p) \<subseteq> set (columns (self_df w))")
    case False
    then obtain e where "groupby (self_df w) (p_qi p) = Inl e"
      using groupby_fails_on_missing_column by blast
    then show ?thesis by (rule assemble_report_needs_groupby)
  next
    case True
    with assms(2) obtain aux c where a: "external_df = Some aux" "c \<in> set (p_qi p)"
      "c \<notin> set (columns aux)" "c \<noteq> ''__aux_id__''" "c \<noteq> ''level_0''"
      by blast
    obtain e where "simulate_linkage_attack (self_df w) aux (p_qi p) = Inl e"
      using linkage_fails_on_missing_key [OF a(2-5)] by blast
    with a(1) have
      "attack_simulation_step (self_df w) external_df (p_qi p) (p_reid_required p) = Inl e"
      by (simp add: attack_simulation_step_def)
    then show ?thesis by (rule assemble_report_needs_attack)
  qed
  then obtain e where
    "assemble_report assoc (self_df w) p external_df suggested ?k ?l ?t = Inl e" by blast
  with s show ?thesis by (simp add: full_report_def Let_def)
qed

text \<open>
  C3, amended. Run from the command line, a call in which a requested QI column or the
  sensitive column is absent from the dataset, or in which the external dataset lacks a
  requested QI column, ends with \<^verbatim>\<open>SystemExit\<close> before the validator is built: no metric
  is computed and the log is untouched. A direct call of \<^verbatim>\<open>full_report\<close> in which the
  sensitive column is absent raises the \<^verbatim>\<open>KeyError\<close> of \<^verbatim>\<open>suggest_thresholds\<close> before any
  analyzer runs, the log untouched. A direct call in which the sensitive column is
  present and a requested QI column is absent from the dataset, or from the external
  dataset (a column not called \<^verbatim>\<open>__aux_id__\<close> or \<^verbatim>\<open>level_0\<close>), returns no report either,
  but raises only after the three analyzers have run and their outcomes have gone to the
  log.
\<close>

theorem configuration_errors_before_metrics:
  "((\<not> set (a_qi args @ [a_sensitive args]) \<subseteq> set (columns df)
      \<or> (\<exists>aux. aux_df = Some aux \<and> \<not> set (a_qi args) \<subseteq> set (columns aux)))
     \<longrightarrow> (\<exists>msg. cli_main assoc args df aux_df w0 = (Inl (SystemExit msg), w0)))
   \<and> (p_sensitive p \<notin> set (columns (self_df w))
     \<longrightarrow> full_report assoc p external_df w = (Inl (KeyError (p_sensitive p)), w))
   \<and> (p_sensitive p \<in> set (columns (self_df w))
       \<and> (\<not> set (p_qi p) \<subseteq> set (columns (self_df w))
          \<or> (\<exists>aux c. external_df = Some aux \<and> c \<in> set (p_qi p) \<and> c \<notin> set (columns aux)
                      \<and> c \<noteq> ''__aux_id__'' \<and> c \<noteq> ''level_0''))
     \<longrightarrow> (\<exists>e. full_report assoc p external_df w =
           (Inl e,
            write_log [LogQI (p_qi p), LogSensitive (p_sensitive p),
                       LogK (k_anonymity (self_df w) (p_qi p)),
                       LogL (l_diversity (self_df w) (p_qi p) (p_sensitive p) (p_l_method p)),
                       LogT (t_closeness (self_df w) (p_qi p) (p_sensitive p) (p_numeric_bins p)
                               (p_binning_method p) (p_t_method p))] w)))"
proof (intro conjI impI)
  assume h: "\<not> set (a_qi args @ [a_sensitive args]) \<subseteq> set (columns df)
        \<or> (\<exists>aux. aux_df = Some aux \<and> \<not> set (a_qi args) \<subseteq> set (columns aux))"
  show "\<exists>msg. cli_main assoc args df aux_df w0 = (Inl (SystemExit msg), w0)"
  proof (cases "filter (\<lambda>c. c \<notin> set (columns df)) (a_qi args @ [a_sensitive args]) = []")
    case False
    then show ?thesis by (simp add: cli_main_def Let_def)
  next
    case True
    then have "\<forall>c \<in> set (a_qi args @ [a_sensitive args]). \<not> c \<notin> set (columns df)"
      by (simp only: filter_empty_conv)
    then have "set (a_qi args @ [a_sensitive args]) \<subseteq> set (columns df)"
      by blast
    with h obtain aux where a: "aux_df = Some aux" "\<not> set (a_qi args) \<subseteq> set (columns aux)"
      by blast
    then have "filter (\<lambda>c. c \<notin> set (columns aux)) (a_qi args) \<noteq> []"
      by (auto simp: filter_empty_conv)
    with True a(1) show ?thesis by (simp add: cli_main_def Let_def)
  qed
next
  assume "p_sensitive p \<notin> set (columns (self_df w))"
  then show "full_report assoc p external_df w = (Inl (KeyError (p_sensitive p)), w)"
    by (simp add: full_report_def suggest_thresholds_def get_column_def Let_def)
next
  assume "p_sensitive p \<in> set (columns (self_df w))
       \<and> (\<not> set (p_qi p) \<subseteq> set (columns (self_df w))
          \<or> (\<exists>aux c. external_df = Some aux \<and> c \<in> set (p_qi p) \<and> c \<notin> set (columns aux)
                      \<and> c \<noteq> ''__aux_id__'' \<and> c \<noteq> ''level_0''))"
  then have "p_sensitive p \<in> set (columns (self_df w))"
    and "\<not> set (p_qi p) \<subseteq> set (columns (self_df w))
          \<or> (\<exists>aux c. external_df = Some aux \<and> c \<in> set (p_qi p) \<and> c \<notin> set (columns aux)
                      \<and> c \<noteq> ''__aux_id__'' \<and> c \<noteq> ''level_0'')"
    by (rule conjunct1, rule conjunct2)
  then show "\<exists>e. full_report assoc p external_df w =
           (Inl e,
            write_log [LogQI (p_qi p), LogSensitive (p_sensitive p),
                       LogK (k_anonymity (self_df w) (p_qi p)),
                       LogL (l_diversity (self_df w) (p_qi p) (p_sensitive p) (p_l_method p)),
                       LogT (t_closeness (self_df w) (p_qi p) (p_sensitive p) (p_numeric_bins p)
                               (p_binning_method p) (p_t_method p))] w)"
    by (rule full_report_fails_after_analyzers)
qed

theorem configuration_errors_before_metrics_witness:
  "(\<not> set (a_qi cli_args) \<subseteq> set (columns scores_only_df)
    \<and> (\<exists>msg. cli_main no_association cli_args skewed_df (Some scores_only_df)
               (fresh_world empty_df)
             = (Inl (SystemExit msg), fresh_world empty_df)))
   \<and> (p_sensitive skewed_params \<notin> set (columns (self_df (fresh_world empty_df)))
    \<and> full_report no_association skewed_params None (fresh_world empty_df)
        = (Inl (KeyError ''score''), fresh_world empty_df))
   \<and> (p_sensitive skewed_params \<in> set (columns (self_df (fresh_world skewed_df)))
    \<and> ''grp'' \<in> set (p_qi skewed_params) \<and> ''grp'' \<notin> set (columns scores_only_df)
    \<and> (\<exists>e. full_report no_association skewed_params (Some scores_only_df)
              (fresh_world skewed_df) =
           (Inl e,
            write_log [LogQI [''grp''], LogSensitive ''score'',
                       LogK (k_anonymity skewed_df [''grp'']),
                       LogL (l_diversity skewed_df [''grp''] ''score'' ''distinct''),
                       LogT (t_closeness skewed_df [''grp''] ''score'' 2 ''fd'' ''tvd'')]
              (fresh_world skewed_df))))"
proof -
  have a: "\<exists>msg. cli_main no_association cli_args skewed_df (Some scores_only_df)
               (fresh_world empty_df)
             = (Inl (SystemExit msg), fresh_world empty_df)"
    using configuration_errors_before_metrics
      [where args = cli_args and df = skewed_df and aux_df = "Some scores_only_df"
         and assoc = no_association and ?w0.0 = "fresh_world empty_df", THEN conjunct1]
    by (simp add: cli_args_def scores_only_df_def)
  have b: "full_report no_association skewed_params None (fresh_world empty_df)
        = (Inl (KeyError ''score''), fresh_world empty_df)"
    using configuration_errors_before_metrics
      [where p = skewed_params and w = "fresh_world empty_df" and assoc = no_association
         and external_df = None, THEN conjunct2, THEN conjunct1]
    by (simp add: skewed_params_def fresh_world_def empty_df_def)
  have c: "\<exists>e. full_report no_association skewed_params (Some scores_only_df)
              (fresh_world skewed_df) =
           (Inl e,
            write_log [LogQI [''grp''], LogSensitive ''score'',
                       LogK (k_anonymity skewed_df [''grp'']),
                       LogL (l_diversity skewed_df [''grp''] ''score'' ''distinct''),
                       LogT (t_closeness skewed_df [''grp''] ''score'' 2 ''fd'' ''tvd'')]
              (fresh_world skewed_df))"
    using configuration_errors_before_metrics
      [where p = skewed_params and w = "fresh_world skewed_df" and assoc = no_association
         and external_df = "Some scores_only_df", THEN conjunct2, THEN conjunct2]
    by (simp add: skewed_params_def fresh_world_def scores_only_df_def)
      (simp add: skewed_df_def)
  from a b c show ?thesis
    by (simp add: cli_args_def scores_only_df_def skewed_params_def fresh_world_def
        empty_df_def) (simp add: skewed_df_def)
qed

section \<open>Properties of the object store\<close>

subsection \<open>The programs keep the objects\<close>

lemma keeps_objectsI:
  "(\<And>st. take (length (objects st)) (objects (snd (m st))) = objects st) \<Longrightarrow> keeps_objects m"
  by (simp add: keeps_objects_def)

lemma keeps_objectsD:
  "keeps_objects m \<Longrightarrow> take (length (objects st)) (objects (snd (m st))) = objects st"
  by (simp add: keeps_objects_def)

lemma keeps_objects_length:
  assumes "keeps_objects m"
  shows "length (objects st) \<le> length (objects (snd (m st)))"
proof -
  have "length (take (length (objects st)) (objects (snd (m st)))) = length (objects st)"
    using keeps_objectsD [OF assms, of st] by simp
  then show ?thesis by simp
qed

lemma keeps_ret: "keeps_objects (ret x)"
  by (simp add: keeps_objects_def ret_def)

lemma keeps_raise_error: "keeps_objects (raise_error e)"
  by (simp add: keeps_objects_def raise_error_def)

lemma keeps_lift_result: "keeps_objects (lift_result res)"
  by (simp add: keeps_objects_def lift_result_def)

lemma keeps_read_frame: "keeps_objects (read_frame r)"
  by (simp add: keeps_objects_def read_frame_def)

lemma keeps_alloc: "keeps_objects (alloc v)"
  by (simp add: keeps_objects_def alloc_def)

lemma keeps_append_log: "keeps_objects (append_log debug_lines)"
  by (simp add: keeps_objects_def append_log_def)

lemma keeps_and_then:
  assumes m: "keeps_objects m" and f: "\<And>x. keeps_objects (f x)"
  shows "keeps_objects (and_then m f)"
proof (rule keeps_objectsI)
  fix st
  obtain res st1 where r: "m st = (res, st1)" by (cases "m st")
  have k1: "take (length (objects st)) (objects st1) = objects st"
    using keeps_objectsD [OF m, of st] r by simp
  have l1: "length (objects st) \<le> length (objects st1)"
    using keeps_objects_length [OF m, of st] r by simp
  show "take (length (objects st)) (objects (snd (and_then m f st))) = objects st"
  proof (cases res)
    case (Inl e)
    with r k1 show ?thesis by (simp add: and_then_def)
  next
    case (Inr x)
    have k2: "take (length (objects st1)) (objects (snd (f x st1))) = objects st1"
      by (rule keeps_objectsD [OF f])
    have "take (length (objects st)) (objects (snd (f x st1)))
        = take (length (objects st)) (take (length (objects st1)) (objects (snd (f x st1))))"
      using l1 by (simp add: min_def)
    also have "\<dots> = objects st" by (simp only: k2 k1)
    finally show ?thesis using r Inr by (simp add: and_then_def)
  qed
qed

lemma keeps_attempt:
  assumes "keeps_objects m"
  shows "keeps_objects (attempt m)"
proof (rule keeps_objectsI)
  fix st
  obtain res st1 where r: "m st = (res, st1)" by (cases "m st")
  with keeps_objectsD [OF assms, of st]
  show "take (length (objects st)) (objects (snd (attempt m st))) = objects st"
    by (simp add: attempt_def)
qed

lemma keeps_deliver: "keeps_objects (deliver False r v)"
  by (simp add: deliver_def keeps_and_then keeps_alloc keeps_ret)

lemma keeps_the_object: "keeps_objects (the_object res)"
  by (cases res) (simp_all add: the_object_def keeps_ret keeps_raise_error)

lemmas keeps_basic =
  keeps_ret keeps_raise_error keeps_lift_result keeps_read_frame keeps_alloc keeps_append_log
  keeps_deliver keeps_the_object

lemma keeps_df_copy: "keeps_objects (df_copy r)"
  by (simp add: df_copy_def keeps_and_then keeps_basic)

lemma keeps_df_reset_index: "keeps_objects (df_reset_index r False)"
  by (simp add: df_reset_index_def keeps_and_then keeps_basic)

lemma keeps_df_rename: "keeps_objects (df_rename r old new False)"
  by (simp add: df_rename_def keeps_and_then keeps_basic)

lemma keeps_df_drop: "keeps_objects (df_drop r c False)"
  by (simp add: df_drop_def keeps_and_then keeps_basic)

lemma keeps_df_merge: "keeps_objects (df_merge l r keys)"
  by (simp add: df_merge_def keeps_and_then keeps_basic)

lemma keeps_df_loc: "keeps_objects (df_loc r labels)"
  by (simp add: df_loc_def keeps_and_then keeps_basic)

lemma keeps_df_to_dict: "keeps_objects (df_to_dict r)"
  by (simp add: df_to_dict_def keeps_and_then keeps_basic)

lemma keeps_df_groupby: "keeps_objects (df_groupby r keys)"
  by (simp add: df_groupby_def keeps_and_then keeps_basic)

lemma keeps_df_groupby_col: "keeps_objects (df_groupby_col r keys c)"
  by (simp add: df_groupby_col_def keeps_and_then keeps_basic)

lemma keeps_df_getitem: "keeps_objects (df_getitem r c)"
  by (simp add: df_getitem_def keeps_and_then keeps_basic)

lemma keeps_df_dtype: "keeps_objects (df_dtype r c)"
  by (simp add: df_dtype_def keeps_and_then keeps_basic)

lemma keeps_df_len: "keeps_objects (df_len r)"
  by (simp add: df_len_def keeps_and_then keeps_basic)

lemma keeps_df_columns: "keeps_objects (df_columns r)"
  by (simp add: df_columns_def keeps_and_then keeps_basic)

lemmas keeps_pandas =
  keeps_df_copy keeps_df_reset_index keeps_df_rename keeps_df_drop keeps_df_merge keeps_df_loc
  keeps_df_to_dict keeps_df_groupby keeps_df_groupby_col keeps_df_getitem keeps_df_dtype
  keeps_df_len keeps_df_columns

lemma keeps_k_anonymity: "keeps_objects (k_anonymity_m self qi_cols)"
  by (simp add: k_anonymity_m_def Let_def keeps_and_then keeps_basic keeps_pandas)

lemma keeps_l_diversity: "keeps_objects (l_diversity_m self qi_cols sensitive_col method)"
  by (simp add: l_diversity_m_def Let_def keeps_and_then keeps_basic keeps_pandas)

lemma keeps_t_closeness:
  "keeps_objects (t_closeness_m self qi_cols sensitive_col numeric_bins binning_method t_method)"
  unfolding t_closeness_m_def
  by (intro keeps_and_then keeps_basic keeps_pandas)
    (simp add: keeps_and_then keeps_basic keeps_pandas split: prod.split option.split)

lemma keeps_suggest_thresholds:
  "keeps_objects (suggest_thresholds_m self qi_cols sensitive_col)"
  by (simp add: suggest_thresholds_m_def keeps_and_then keeps_basic keeps_pandas)

lemma keeps_simulate_linkage_attack:
  "keeps_objects (simulate_linkage_attack_m anonymised_df aux_df qi_cols)"
  unfolding simulate_linkage_attack_m_def
  by (intro keeps_and_then keeps_basic keeps_pandas)
    (simp add: Let_def keeps_and_then keeps_basic keeps_pandas)

lemma keeps_attack_simulation_step:
  "keeps_objects (attack_simulation_step_m self external_df qi_cols reid_required)"
  by (cases external_df)
    (simp_all add: attack_simulation_step_m_def keeps_and_then keeps_basic
      keeps_simulate_linkage_attack)

lemma keeps_for_each:
  assumes "\<And>x. keeps_objects (f x)"
  shows "keeps_objects (for_each f xs)"
  by (induction xs) (simp_all add: keeps_and_then keeps_ret assms)

lemma keeps_data_summary: "keeps_objects (data_summary_m self)"
  unfolding data_summary_m_def
  by (intro keeps_and_then keeps_for_each keeps_basic keeps_pandas)

lemma keeps_association: "keeps_objects (association_m assoc self qi_cols sensitive_col)"
  by (simp add: association_m_def keeps_and_then keeps_basic)

lemma keeps_assemble_report:
  "keeps_objects (assemble_report_m assoc self p external_df suggested summary krep lrep trep)"
  unfolding assemble_report_m_def
  by (intro keeps_and_then keeps_basic keeps_pandas keeps_attack_simulation_step
      keeps_association)
    (simp_all add: Let_def keeps_and_then keeps_basic keeps_pandas keeps_association
      split: prod.split)

lemma keeps_full_report: "keeps_objects (full_report_m assoc self p external_df)"
  unfolding full_report_m_def
  by (intro keeps_and_then keeps_attempt keeps_basic keeps_k_anonymity
      keeps_l_diversity keeps_t_closeness keeps_suggest_thresholds keeps_data_summary
      keeps_assemble_report)

lemma perform_keeps_objects:
  "take (length (objects st)) (objects (snd (perform assoc self c st))) = objects st"
proof (cases c)
  case (CallKAnonymity qi_cols)
  with keeps_objectsD [OF keeps_k_anonymity, of st self qi_cols]
  show ?thesis by (simp add: case_prod_unfold Let_def)
next
  case (CallLDiversity qi_cols sensitive_col l_method)
  with keeps_objectsD [OF keeps_l_diversity, of st self qi_cols sensitive_col l_method]
  show ?thesis by (simp add: case_prod_unfold Let_def)
next
  case (CallTCloseness qi_cols sensitive_col numeric_bins binning_method t_method)
  with keeps_objectsD [OF keeps_t_closeness, of st self qi_cols sensitive_col numeric_bins
      binning_method t_method]
  show ?thesis by (simp add: case_prod_unfold Let_def)
next
  case (CallSuggestThresholds qi_cols sensitive_col)
  with keeps_objectsD [OF keeps_suggest_thresholds, of st self qi_cols sensitive_col]
  show ?thesis by (simp add: case_prod_unfold Let_def)
next
  case (CallFullReport p external_df)
  with keeps_objectsD [OF keeps_full_report, of st assoc self p external_df]
  show ?thesis by (simp add: case_prod_unfold Let_def)
qed

lemma perform_all_keeps_objects:
  "take (length (objects st)) (objects (snd (perform_all assoc self calls st))) = objects st"
proof (induction calls arbitrary: st)
  case Nil
  show ?case by simp
next
  case (Cons c cs)
  obtain out st1 where p: "perform assoc self c st = (out, st1)"
    by (cases "perform assoc self c st")
  have k1: "take (length (objects st)) (objects st1) = objects st"
    using perform_keeps_objects [of st assoc self c] p by simp
  then have "length (take (length (objects st)) (objects st1)) = length (objects st)" by simp
  then have l1: "length (objects st) \<le> length (objects st1)" by simp
  have k2: "take (length (objects st1)) (objects (snd (perform_all assoc self cs st1)))
              = objects st1"
    by (rule Cons.IH)
  have "take (length (objects st)) (objects (snd (perform_all assoc self cs st1)))
      = take (length (objects st))
          (take (length (objects st1)) (objects (snd (perform_all assoc self cs st1))))"
    using l1 by (simp add: min_def)
  also have "\<dots> = objects st" by (simp only: k2 k1)
  finally show ?case using p by (simp add: case_prod_unfold Let_def)
qed

subsection \<open>The programs return what the functions return\<close>

lemmas prog_defs = ret_def raise_error_def lift_result_def and_then_def attempt_def
  read_frame_def alloc_def overwrite_def deliver_def the_object_def

lemma k_anonymity_m_run:
  "k_anonymity_m self qi_cols st = (k_anonymity (objects st ! self) qi_cols, st)"
  by (simp add: k_anonymity_m_def k_anonymity_def df_groupby_def prog_defs Let_def
      split: sum.splits)

lemma l_diversity_m_run:
  "l_diversity_m self qi_cols sensitive_col method st =
     (l_diversity (objects st ! self) qi_cols sensitive_col method, st)"
  by (simp add: l_diversity_m_def l_diversity_def df_groupby_col_def prog_defs Let_def
      split: sum.splits)

lemma t_closeness_m_run:
  "t_closeness_m self qi_cols sensitive_col numeric_bins binning_method t_method st =
     (t_closeness (objects st ! self) qi_cols sensitive_col numeric_bins binning_method t_method,
      st)"
  by (simp add: t_closeness_m_def t_closeness_def df_getitem_def df_dtype_def
      df_groupby_col_def prog_defs split: sum.splits option.splits prod.splits)

lemma suggest_thresholds_m_run:
  "suggest_thresholds_m self qi_cols sensitive_col st =
     (suggest_thresholds (objects st ! self) qi_cols sensitive_col, st)"
  by (simp add: suggest_thresholds_m_def suggest_thresholds_def df_getitem_def df_dtype_def
      df_len_def prog_defs Let_def split: sum.splits)

lemma missing_rates_run:
  assumes "set cols \<subseteq> set (columns (objects st ! self))"
  shows "for_each (\<lambda>c. and_then (df_getitem self c) (\<lambda>s. ret (c, missing_rate s))) cols st
           = (Inr (map (\<lambda>c. (c, missing_rate (map (\<lambda>r. r c) (rows (objects st ! self))))) cols),
              st)"
  using assms
  by (induction cols) (simp_all add: df_getitem_def get_column_def prog_defs)

lemma data_summary_m_run:
  "data_summary_m self st = (Inr (data_summary (objects st ! self)), st)"
  using missing_rates_run [of "columns (objects st ! self)" st self]
  by (simp add: data_summary_m_def data_summary_def df_len_def df_columns_def
      and_then_def read_frame_def ret_def)

lemma to_record_dropped:
  "map (to_record (columns (drop_column c df))) (rows (drop_column c df))
     = map (to_record (filter (\<lambda>d. d \<noteq> c) (columns df))) (rows df)"
  by (simp add: drop_column_def to_record_def)

lemma simulate_linkage_attack_m_result:
  assumes "anonymised_df < length (objects st)" and "aux_df < length (objects st)"
  shows "fst (simulate_linkage_attack_m anonymised_df aux_df qi_cols st)
           = simulate_linkage_attack (objects st ! anonymised_df) (objects st ! aux_df) qi_cols"
proof (cases "reset_index (objects st ! aux_df)")
  case (Inl e)
  then show ?thesis
    by (simp add: simulate_linkage_attack_m_def simulate_linkage_attack_def df_copy_def
        df_reset_index_def prog_defs)
next
  case (Inr indexed)
  let ?aux = "rename_column ''index'' ''__aux_id__'' indexed"
  show ?thesis
  proof (cases "merge_left_indicator ?aux (objects st ! anonymised_df) qi_cols")
    case (Inl e)
    with Inr assms show ?thesis
      by (simp add: simulate_linkage_attack_m_def simulate_linkage_attack_def df_copy_def
          df_reset_index_def df_rename_def df_merge_def prog_defs nth_append Let_def)
  next
    case merged: (Inr merged)
    let ?counts = "map (\<lambda>(g, ms). (g, length (filter snd ms)))
                     (group_by (\<lambda>(a, both). a ''__aux_id__'')
                        (filter (\<lambda>(a, both). \<not> isna (a ''__aux_id__'')) merged))"
    let ?labels = "map fst (filter (\<lambda>(g, c). c = 1) ?counts)"
    show ?thesis
    proof (cases "apply_each (loc_row ?aux) ?labels")
      case (Inl e)
      with Inr merged assms show ?thesis
        by (simp add: simulate_linkage_attack_m_def simulate_linkage_attack_def df_copy_def
            df_reset_index_def df_rename_def df_merge_def df_columns_def df_len_def df_loc_def
            prog_defs nth_append Let_def)
    next
      case hit: (Inr hit)
      with Inr merged assms show ?thesis
        by (simp add: simulate_linkage_attack_m_def simulate_linkage_attack_def df_copy_def
            df_reset_index_def df_rename_def df_merge_def df_columns_def df_len_def df_loc_def
            df_drop_def df_to_dict_def prog_defs nth_append Let_def to_record_dropped)
    qed
  qed
qed


lemma simulate_linkage_attack_m_log:
  "logfile (snd (simulate_linkage_attack_m anonymised_df aux_df qi_cols st)) = logfile st
   \<and> logfile_writable (snd (simulate_linkage_attack_m anonymised_df aux_df qi_cols st))
       = logfile_writable st"
  by (simp add: simulate_linkage_attack_m_def df_copy_def
      df_reset_index_def df_rename_def df_merge_def df_columns_def df_len_def df_loc_def
      df_drop_def df_to_dict_def prog_defs Let_def split: sum.splits prod.splits if_splits)


lemma attack_simulation_step_m_result:
  assumes "self < length (objects st)" and "\<forall>x. external_df = Some x \<longrightarrow> x < length (objects st)"
  shows "fst (attack_simulation_step_m self external_df qi_cols reid_required st)
           = attack_simulation_step (objects st ! self)
               (map_option (\<lambda>x. objects st ! x) external_df) qi_cols reid_required"
proof (cases external_df)
  case None
  then show ?thesis
    by (simp add: attack_simulation_step_m_def attack_simulation_step_def prog_defs)
next
  case (Some ext)
  with assms have v: "ext < length (objects st)" by simp
  obtain res st' where r: "simulate_linkage_attack_m self ext qi_cols st = (res, st')"
    by (cases "simulate_linkage_attack_m self ext qi_cols st")
  with simulate_linkage_attack_m_result [OF assms(1) v, of qi_cols]
  have "res = simulate_linkage_attack (objects st ! self) (objects st ! ext) qi_cols" by simp
  with Some r show ?thesis
    by (simp add: attack_simulation_step_m_def attack_simulation_step_def prog_defs
        split: sum.splits)
qed

lemma attack_simulation_step_m_log:
  "logfile (snd (attack_simulation_step_m self external_df qi_cols reid_required st)) = logfile st"
proof (cases external_df)
  case None
  then show ?thesis by (simp add: attack_simulation_step_m_def prog_defs)
next
  case (Some ext)
  obtain res st' where r: "simulate_linkage_attack_m self ext qi_cols st = (res, st')"
    by (cases "simulate_linkage_attack_m self ext qi_cols st")
  with simulate_linkage_attack_m_log [of self ext qi_cols st] have "logfile st' = logfile st"
    by simp
  with Some r show ?thesis
    by (simp add: attack_simulation_step_m_def prog_defs split: sum.splits)
qed

lemma kept_object:
  assumes "keeps_objects m" and "r < length (objects st)"
  shows "objects (snd (m st)) ! r = objects st ! r"
proof -
  have "take (length (objects st)) (objects (snd (m st))) ! r = objects st ! r"
    by (simp only: keeps_objectsD [OF assms(1)])
  with assms(2) show ?thesis by simp
qed

lemma assemble_report_m_result:
  assumes "self < length (objects st)" and "\<forall>x. external_df = Some x \<longrightarrow> x < length (objects st)"
  shows "fst (assemble_report_m assoc self p external_df suggested
                (data_summary (objects st ! self)) krep lrep trep st)
           = assemble_report assoc (objects st ! self) p
               (map_option (\<lambda>x. objects st ! x) external_df) suggested krep lrep trep"
    and "logfile (snd (assemble_report_m assoc self p external_df suggested summary
                         krep lrep trep st)) = logfile st"
proof -
  let ?step = "attack_simulation_step_m self external_df (p_qi p) (p_reid_required p)"
  obtain res st' where r: "?step st = (res, st')" by (cases "?step st")
  have res: "res = attack_simulation_step (objects st ! self)
               (map_option (\<lambda>x. objects st ! x) external_df) (p_qi p) (p_reid_required p)"
    using attack_simulation_step_m_result [OF assms, of "p_qi p" "p_reid_required p"] r by simp
  have same: "objects st' ! self = objects st ! self"
    using kept_object [OF keeps_attack_simulation_step
        [of self external_df "p_qi p" "p_reid_required p"] assms(1)] r by simp
  have log: "logfile st' = logfile st"
    using attack_simulation_step_m_log [of self external_df "p_qi p" "p_reid_required p" st] r
    by simp
  show "fst (assemble_report_m assoc self p external_df suggested
                (data_summary (objects st ! self)) krep lrep trep st)
           = assemble_report assoc (objects st ! self) p
               (map_option (\<lambda>x. objects st ! x) external_df) suggested krep lrep trep"
    using r res [symmetric] same
    by (simp add: assemble_report_m_def assemble_report_def df_groupby_def association_m_def
        prog_defs Let_def split: sum.splits prod.splits)
  show "logfile (snd (assemble_report_m assoc self p external_df suggested summary
                         krep lrep trep st)) = logfile st"
    using r log
    by (simp add: assemble_report_m_def df_groupby_def association_m_def
        prog_defs Let_def split: sum.splits prod.splits)
qed

lemma full_report_m_refines:
  assumes "self < length (objects st)" and "\<forall>x. external_df = Some x \<longrightarrow> x < length (objects st)"
  shows "fst (full_report_m assoc self p external_df st)
           = fst (full_report assoc p (map_option (\<lambda>x. objects st ! x) external_df)
                    (world_of self st))"
    and "logfile (snd (full_report_m assoc self p external_df st))
           = log_txt (snd (full_report assoc p (map_option (\<lambda>x. objects st ! x) external_df)
                             (world_of self st)))"
proof -
  let ?df = "objects st ! self"
  let ?lines = "[LogQI (p_qi p), LogSensitive (p_sensitive p),
                 LogK (k_anonymity ?df (p_qi p)),
                 LogL (l_diversity ?df (p_qi p) (p_sensitive p) (p_l_method p)),
                 LogT (t_closeness ?df (p_qi p) (p_sensitive p) (p_numeric_bins p)
                         (p_binning_method p) (p_t_method p))]"
  let ?st1 = "if logfile_writable st then st\<lparr> logfile := logfile st @ ?lines \<rparr> else st"
  have o: "objects ?st1 = objects st" by simp
  have v: "self < length (objects ?st1)"
    "\<forall>x. external_df = Some x \<longrightarrow> x < length (objects ?st1)"
    using assms by simp_all
  show "fst (full_report_m assoc self p external_df st)
           = fst (full_report assoc p (map_option (\<lambda>x. objects st ! x) external_df)
                    (world_of self st))"
  proof (cases "suggest_thresholds ?df (p_qi p) (p_sensitive p)")
    case (Inl e)
    then show ?thesis
      by (simp add: full_report_m_def full_report_def suggest_thresholds_m_run and_then_def
          world_of_def Let_def)
  next
    case (Inr suggested)
    from assemble_report_m_result(1) [OF v, of assoc p suggested] Inr show ?thesis
      by (simp add: full_report_m_def full_report_def suggest_thresholds_m_run
          data_summary_m_run k_anonymity_m_run l_diversity_m_run t_closeness_m_run
          and_then_def attempt_def append_log_def world_of_def Let_def o)
  qed
  show "logfile (snd (full_report_m assoc self p external_df st))
           = log_txt (snd (full_report assoc p (map_option (\<lambda>x. objects st ! x) external_df)
                             (world_of self st)))"
  proof (cases "suggest_thresholds ?df (p_qi p) (p_sensitive p)")
    case (Inl e)
    then show ?thesis
      by (simp add: full_report_m_def full_report_def suggest_thresholds_m_run and_then_def
          world_of_def Let_def)
  next
    case (Inr suggested)
    from assemble_report_m_result(2) [OF v, of assoc p suggested] Inr show ?thesis
      by (simp add: full_report_m_def full_report_def suggest_thresholds_m_run
          data_summary_m_run k_anonymity_m_run l_diversity_m_run t_closeness_m_run
          and_then_def attempt_def append_log_def world_of_def write_log_def Let_def)
  qed
qed

subsection \<open>The bound data frame\<close>

text \<open>A call made in place does write over its receiver.\<close>

lemma reset_index_in_place_overwrites:
  "objects (snd (df_reset_index 1 True two_frames)) ! 1 \<noteq> objects two_frames ! 1"
proof -
  have "columns (objects (snd (df_reset_index 1 True two_frames)) ! 1) = [''index'', ''score'']"
    by (simp add: df_reset_index_def prog_defs two_frames_def reset_index_def
        scores_only_df_def Let_def)
  moreover have "columns (objects two_frames ! 1) = [''score'']"
    by (simp add: two_frames_def scores_only_df_def)
  ultimately show ?thesis by auto
qed

text \<open>
  C9. A validator is bound to the frame at the address \<open>self\<close>. Whatever sequence of calls
  of \<^verbatim>\<open>k_anonymity\<close>, \<^verbatim>\<open>l_diversity\<close>, \<^verbatim>\<open>t_closeness\<close>, \<^verbatim>\<open>suggest_thresholds\<close> and
  \<^verbatim>\<open>full_report\<close> is made on it, with whatever arguments, also when the external frame of
  \<^verbatim>\<open>full_report\<close> is the bound frame itself, and whether the calls return or raise, the
  object at that address is afterwards the frame it was, row for row and cell for cell;
  as the sequence is arbitrary, so it is after every call of it. The calls create objects
  (the copy of the external frame and the frames derived from it) and append to the log,
  and that is all they write.
\<close>

theorem bound_dataset_never_mutated:
  assumes "self < length (objects st)"
  shows "objects (snd (perform_all assoc self calls st)) ! self = objects st ! self"
proof -
  have "take (length (objects st)) (objects (snd (perform_all assoc self calls st))) ! self
          = objects st ! self"
    by (simp only: perform_all_keeps_objects)
  with assms show ?thesis by simp
qed

theorem bound_dataset_never_mutated_witness:
  "0 < length (objects two_frames)
   \<and> objects (snd (perform_all no_association 0
                    [CallKAnonymity [''grp''], CallFullReport skewed_params (Some 0),
                     CallTCloseness [''grp''] ''score'' 2 ''fd'' ''tvd'',
                     CallFullReport skewed_params (Some 1)] two_frames)) ! 0
       = skewed_df"
  using bound_dataset_never_mutated
    [of 0 two_frames no_association
       "[CallKAnonymity [''grp''], CallFullReport skewed_params (Some 0),
         CallTCloseness [''grp''] ''score'' 2 ''fd'' ''tvd'',
         CallFullReport skewed_params (Some 1)]"]
  by (simp add: two_frames_def)

end
